theory Spec2Isabelle
  imports Complex_Main "HOL-Library.Word"
begin

section \<open>JavaScript strings and the string primitives the clients use\<close>

text \<open>
  A JavaScript string is a sequence of UTF-16 code units. The methods used by the
  clients (\<open>split\<close>, \<open>indexOf\<close>, \<open>slice\<close>, \<open>startsWith\<close>, \<open>trim\<close>) all work on
  code units, so decoded text is modelled as a list of 16-bit words. String
  literals of the source are written \<open>js ''...''\<close>.
\<close>

type_synonym jschar = "16 word"
type_synonym jsstring = "jschar list"

definition js :: "string \<Rightarrow> jsstring" where
  "js s = map (\<lambda>c. of_char c) s"

definition LF :: jschar where
  "LF = 0x0A"

definition COLON :: jschar where
  "COLON = 0x3A"

text \<open>
  \<open>String.prototype.trim\<close> removes WhiteSpace and LineTerminator code points
  (ECMAScript: TAB, LF, VT, FF, CR, SP, NBSP, U+1680, U+2000..U+200A, U+2028, U+2029,
  U+202F, U+205F, U+3000, U+FEFF) from both ends.
\<close>

definition isWhiteSpace :: "jschar \<Rightarrow> bool" where
  "isWhiteSpace c = (c \<in> set [0x09, 0x0A, 0x0B, 0x0C, 0x0D, 0x20, 0xA0, 0x1680,
     0x2000, 0x2001, 0x2002, 0x2003, 0x2004, 0x2005, 0x2006, 0x2007, 0x2008, 0x2009, 0x200A,
     0x2028, 0x2029, 0x202F, 0x205F, 0x3000, 0xFEFF])"

definition trim :: "jsstring \<Rightarrow> jsstring" where
  "trim s = rev (dropWhile isWhiteSpace (rev (dropWhile isWhiteSpace s)))"

definition startsWith :: "jsstring \<Rightarrow> jsstring \<Rightarrow> bool" where
  "startsWith s p = (take (length p) s = p)"

text \<open>\<open>s.indexOf(c)\<close> for a one-character needle; \<open>None\<close> stands for \<open>-1\<close>.\<close>

fun indexOf :: "jsstring \<Rightarrow> jschar \<Rightarrow> nat option" where
  "indexOf [] c = None"
| "indexOf (x # xs) c = (if x = c then Some 0 else map_option Suc (indexOf xs c))"

text \<open>
  \<open>s.split('\n')\<close>: the pieces between line feeds; the result is never empty and its
  last element is the text after the last line feed.
\<close>

fun split_lf :: "jsstring \<Rightarrow> jsstring list" where
  "split_lf [] = [[]]"
| "split_lf (c # cs) =
     (if c = LF then [] # split_lf cs
      else (case split_lf cs of [] \<Rightarrow> [[c]] | l # ls \<Rightarrow> (c # l) # ls))"

text \<open>\<open>s.replace(/\n$/, '')\<close>: without the \<open>m\<close> flag, \<open>$\<close> matches at the end of the input only.\<close>

definition strip_trailing_lf :: "jsstring \<Rightarrow> jsstring" where
  "strip_trailing_lf s = (if s \<noteq> [] \<and> last s = LF then butlast s else s)"

text \<open>
  \<open>parseInt(value, 10)\<close>: leading white space is skipped, an optional sign is read, then
  the longest run of decimal digits; no digit gives \<open>NaN\<close>. The rounding of the result
  to a double (which only changes integers beyond \<open>2^53\<close>) and the sign of zero are
  not modelled.
\<close>

datatype jsnumber = NaN | Num int

definition isDigit :: "jschar \<Rightarrow> bool" where
  "isDigit c = (0x30 \<le> c \<and> c \<le> 0x39)"

definition digits_value :: "jsstring \<Rightarrow> int" where
  "digits_value ds = foldl (\<lambda>acc d. 10 * acc + (uint d - 0x30)) 0 ds"

definition parseInt10 :: "jsstring \<Rightarrow> jsnumber" where
  "parseInt10 s =
     (let t = dropWhile isWhiteSpace s;
          neg = (t \<noteq> [] \<and> hd t = 0x2D);
          u = (if t \<noteq> [] \<and> (hd t = 0x2B \<or> hd t = 0x2D) then tl t else t);
          z = takeWhile isDigit u
      in if z = [] then NaN
         else Num (if neg then - digits_value z else digits_value z))"

section \<open>The manual POST client: \<open>FetchSSEClient\<close> (src/utils/fetch-sse.ts)\<close>

subsection \<open>Data\<close>

record ParsedSSEEvent =
  pe_event :: "jsstring option"
  pe_data :: "jsstring option"
  pe_id :: "jsstring option"
  pe_retry :: "jsnumber option"

record SSEMessage =
  msg_data :: jsstring
  msg_event :: "jsstring option"
  msg_id :: "jsstring option"
  msg_retry :: "jsnumber option"

datatype status = Connecting | Connected | Reconnecting | Disconnected

text \<open>An \<open>Error\<close> object: its \<open>name\<close> and its \<open>message\<close>.\<close>

datatype jserror = JSError (err_name: string) (err_message: string)

text \<open>
  The callbacks of \<open>FetchSSEOptions\<close> are the observable behaviour of the client. Each
  invocation is appended to the field \<open>calls\<close> of the client, in order.
\<close>

datatype callback =
    OnMessage SSEMessage
  | OnError jserror
  | OnConnectionStatus status
  | OnHeartbeat

text \<open>
  The fields of the class. The numeric options are stored after the constructor has
  applied its defaults. Time stamps (\<open>Date.now()\<close>) are integers of milliseconds. An
  \<open>AbortController\<close> and a timer are represented by the identifier the platform gave
  them; \<open>None\<close> is \<open>null\<close>.
\<close>

record FetchSSEClient =
  maxReconnectAttempts :: real
  heartbeatTimeoutMs :: real
  initialBackoffMs :: real
  maxBackoffMs :: real
  abortController :: "nat option"
  reconnectAttempts :: nat
  isConnected :: bool
  lastHeartbeat :: int
  heartbeatTimer :: "nat option"
  reconnectTimer :: "nat option"
  currentEvent :: ParsedSSEEvent
  calls :: "callback list"

definition empty_event :: ParsedSSEEvent where
  "empty_event = \<lparr>pe_event = None, pe_data = None, pe_id = None, pe_retry = None\<rparr>"

definition call :: "callback \<Rightarrow> FetchSSEClient \<Rightarrow> FetchSSEClient" where
  "call cb c = c\<lparr>calls := calls c @ [cb]\<rparr>"

text \<open>\<open>options.x || d\<close> on an optional number: \<open>undefined\<close> and \<open>0\<close> give the default.\<close>

definition or_default :: "real option \<Rightarrow> real \<Rightarrow> real" where
  "or_default v d = (case v of None \<Rightarrow> d | Some x \<Rightarrow> if x = 0 then d else x)"

record FetchSSEOptions =
  opt_maxReconnectAttempts :: "real option"
  opt_heartbeatTimeoutMs :: "real option"
  opt_initialBackoffMs :: "real option"
  opt_maxBackoffMs :: "real option"

definition new_FetchSSEClient :: "FetchSSEOptions \<Rightarrow> FetchSSEClient" where
  "new_FetchSSEClient opts =
     \<lparr>maxReconnectAttempts = or_default (opt_maxReconnectAttempts opts) 5,
      heartbeatTimeoutMs = or_default (opt_heartbeatTimeoutMs opts) 15000,
      initialBackoffMs = or_default (opt_initialBackoffMs opts) 1000,
      maxBackoffMs = or_default (opt_maxBackoffMs opts) 30000,
      abortController = None,
      reconnectAttempts = 0,
      isConnected = False,
      lastHeartbeat = 0,
      heartbeatTimer = None,
      reconnectTimer = None,
      currentEvent = empty_event,
      calls = []\<rparr>"

definition default_options :: FetchSSEOptions where
  "default_options = \<lparr>opt_maxReconnectAttempts = None, opt_heartbeatTimeoutMs = None,
     opt_initialBackoffMs = None, opt_maxBackoffMs = None\<rparr>"

subsection \<open>The event parser\<close>

text \<open>\<open>this.currentEvent.data || ''\<close>: \<open>undefined\<close> and the empty string give \<open>''\<close>.\<close>

definition or_empty :: "jsstring option \<Rightarrow> jsstring" where
  "or_empty v = (case v of None \<Rightarrow> [] | Some s \<Rightarrow> s)"

definition parseSSEEvent :: "jsstring \<Rightarrow> FetchSSEClient \<Rightarrow> FetchSSEClient" where
  "parseSSEEvent line c =
     (case indexOf line COLON of
        None \<Rightarrow> c
      | Some colonIndex \<Rightarrow>
          (let field = take colonIndex line;
               val = trim (drop (colonIndex + 1) line);
               ev = currentEvent c
           in if field = js ''data'' then
                c\<lparr>currentEvent := ev\<lparr>pe_data := Some (or_empty (pe_data ev) @ val @ [LF])\<rparr>\<rparr>
              else if field = js ''event'' then
                c\<lparr>currentEvent := ev\<lparr>pe_event := Some val\<rparr>\<rparr>
              else if field = js ''id'' then
                c\<lparr>currentEvent := ev\<lparr>pe_id := Some val\<rparr>\<rparr>
              else if field = js ''retry'' then
                c\<lparr>currentEvent := ev\<lparr>pe_retry := Some (parseInt10 val)\<rparr>\<rparr>
              else c))"

definition dispatchEvent :: "FetchSSEClient \<Rightarrow> FetchSSEClient" where
  "dispatchEvent c =
     (let ev = currentEvent c;
          c' = (case pe_data ev of
                  None \<Rightarrow> c
                | Some d \<Rightarrow>
                    call (OnMessage \<lparr>msg_data = strip_trailing_lf d, msg_event = pe_event ev,
                                     msg_id = pe_id ev, msg_retry = pe_retry ev\<rparr>) c)
      in c'\<lparr>currentEvent := empty_event\<rparr>)"

text \<open>\<open>now\<close> is the value \<open>Date.now()\<close> returns during the call.\<close>

definition processSSELine :: "int \<Rightarrow> jsstring \<Rightarrow> FetchSSEClient \<Rightarrow> FetchSSEClient" where
  "processSSELine now line c0 =
     (let c = c0\<lparr>lastHeartbeat := now\<rparr>
      in if startsWith line (js '':'') then call OnHeartbeat c
         else if trim line = [] then dispatchEvent c
         else if startsWith line (js ''data:'') \<or> startsWith line (js ''event:'')
                 \<or> startsWith line (js ''id:'') \<or> startsWith line (js ''retry:'')
         then parseSSEEvent line c
         else c)"

subsection \<open>The frame decoder: one iteration of the read loop of \<open>processStream\<close>\<close>

text \<open>
  \<open>TextDecoder\<close> is a primitive of the platform. In streaming mode
  (\<open>decode(value, {stream: true})\<close>) it is a state machine that consumes one byte at a
  time and keeps its state between calls, so it is taken as a parameter: a step
  function from a decoder state and a byte to the next state and the code units
  that byte completes.
\<close>

type_synonym 'd decoder = "'d \<Rightarrow> 8 word \<Rightarrow> 'd \<times> jsstring"

fun decode :: "'d decoder \<Rightarrow> 'd \<Rightarrow> 8 word list \<Rightarrow> 'd \<times> jsstring" where
  "decode dec d [] = (d, [])"
| "decode dec d (b # bs) =
     (let (d1, s1) = dec d b; (d2, s2) = decode dec d1 bs in (d2, s1 @ s2))"

text \<open>
  The text-level part of one loop iteration: \<open>buffer += text\<close>, split into lines, keep
  the last (incomplete) line in the buffer and process the others in order.
\<close>

definition feed_text :: "int \<Rightarrow> jsstring \<Rightarrow> jsstring \<times> FetchSSEClient \<Rightarrow> jsstring \<times> FetchSSEClient" where
  "feed_text now text bc =
     (let lines = split_lf (fst bc @ text)
      in (last lines, foldl (\<lambda>c line. processSSELine now line c) (snd bc) (butlast lines)))"

text \<open>The locals of \<open>processStream\<close>: the decoder and the line buffer.\<close>

record 'd reader =
  rd_decoder :: 'd
  rd_buffer :: jsstring

definition read_chunk ::
  "'d decoder \<Rightarrow> int \<Rightarrow> 8 word list \<Rightarrow> 'd reader \<times> FetchSSEClient \<Rightarrow> 'd reader \<times> FetchSSEClient" where
  "read_chunk dec now bytes rc =
     (let (d', text) = decode dec (rd_decoder (fst rc)) bytes;
          (buf', c') = feed_text now text (rd_buffer (fst rc), snd rc)
      in (\<lparr>rd_decoder = d', rd_buffer = buf'\<rparr>, c'))"

text \<open>
  \<open>processStream\<close> on a stream that delivers the chunks \<open>chunks\<close> (each with the time of
  its arrival) and then ends: the loop leaves at \<open>done\<close> and whatever is left in the
  buffer is dropped.
\<close>

definition processStream ::
  "'d decoder \<Rightarrow> 'd \<Rightarrow> (int \<times> 8 word list) list \<Rightarrow> FetchSSEClient \<Rightarrow> FetchSSEClient" where
  "processStream dec d0 chunks c =
     snd (foldl (\<lambda>rc (now, bytes). read_chunk dec now bytes rc)
                (\<lparr>rd_decoder = d0, rd_buffer = []\<rparr>, c) chunks)"

text \<open>The same loop on already decoded text chunks.\<close>

definition processText :: "(int \<times> jsstring) list \<Rightarrow> FetchSSEClient \<Rightarrow> FetchSSEClient" where
  "processText chunks c =
     snd (foldl (\<lambda>bc (now, text). feed_text now text bc) ([], c) chunks)"

text \<open>
  What the parser reads and writes, the time stamp apart: the callbacks made so far
  and the pending event.
\<close>

definition parser_view :: "FetchSSEClient \<Rightarrow> callback list \<times> ParsedSSEEvent" where
  "parser_view c = (calls c, currentEvent c)"

text \<open>The messages handed to \<open>onMessage\<close>, in order.\<close>

fun messages :: "callback list \<Rightarrow> SSEMessage list" where
  "messages [] = []"
| "messages (OnMessage m # cbs) = m # messages cbs"
| "messages (_ # cbs) = messages cbs"

subsection \<open>The reconnection controller\<close>

text \<open>
  The client runs on the event loop of the platform: \<open>connect\<close> is an asynchronous
  function that suspends at \<open>await fetch(...)\<close> and at every \<open>await reader.read()\<close>, and
  timers run callbacks later. The platform is modelled by what it holds for the
  client: the abort signals that have been aborted, the pending \<open>setTimeout\<close>
  callbacks (with the delay they were given), the active \<open>setInterval\<close> callbacks
  and the suspended invocations of \<open>connect\<close>, each identified by the abort signal it
  passed to \<open>fetch\<close>. Identifiers are drawn from one counter that starts at 1 (timer
  handles are positive, so a stored handle is truthy).
\<close>

datatype 'd phase = AwaitingFetch | Reading "'d reader"

record 'd world =
  client :: FetchSSEClient
  next_id :: nat
  aborted :: "nat list"
  timeouts :: "(nat \<times> real) list"
  intervals :: "nat list"
  activations :: "(nat \<times> 'd phase) list"

definition new_world :: "FetchSSEOptions \<Rightarrow> 'd world" where
  "new_world opts = \<lparr>client = new_FetchSSEClient opts, next_id = 1, aborted = [],
     timeouts = [], intervals = [], activations = []\<rparr>"

text \<open>What \<open>Date.now()\<close> and \<open>Math.random()\<close> return while one handler runs.\<close>

record env =
  date_now :: int
  math_random :: real

definition BACKOFF_SCHEDULE :: "real list" where
  "BACKOFF_SCHEDULE = [1000, 2000, 4000, 8000, 16000, 30000]"

definition stopHeartbeatMonitor :: "'d world \<Rightarrow> 'd world" where
  "stopHeartbeatMonitor w =
     (case heartbeatTimer (client w) of
        None \<Rightarrow> w
      | Some t \<Rightarrow> w\<lparr>intervals := removeAll t (intervals w),
                     client := (client w)\<lparr>heartbeatTimer := None\<rparr>\<rparr>)"

definition startHeartbeatMonitor :: "'d world \<Rightarrow> 'd world" where
  "startHeartbeatMonitor w =
     (let w1 = stopHeartbeatMonitor w; t = next_id w1
      in w1\<lparr>next_id := Suc t, intervals := intervals w1 @ [t],
             client := (client w1)\<lparr>heartbeatTimer := Some t\<rparr>\<rparr>)"

definition scheduleReconnect :: "env \<Rightarrow> 'd world \<Rightarrow> 'd world" where
  "scheduleReconnect e w =
     (let c = call (OnConnectionStatus Reconnecting) (client w);
          backoffIndex = min (reconnectAttempts c) (length BACKOFF_SCHEDULE - 1);
          baseDelay = BACKOFF_SCHEDULE ! backoffIndex;
          jitter = math_random e * 500;
          delay = min (baseDelay + jitter) (maxBackoffMs c);
          t = next_id w
      in w\<lparr>next_id := Suc t, timeouts := timeouts w @ [(t, delay)],
            client := c\<lparr>reconnectTimer := Some t\<rparr>\<rparr>)"

definition handleConnectionError :: "env \<Rightarrow> jserror \<Rightarrow> 'd world \<Rightarrow> 'd world" where
  "handleConnectionError e err w =
     (let w1 = w\<lparr>client := (client w)\<lparr>isConnected := False\<rparr>\<rparr>;
          w2 = stopHeartbeatMonitor w1;
          w3 = w2\<lparr>client := call (OnError err) (client w2)\<rparr>
      in if real (reconnectAttempts (client w3)) < maxReconnectAttempts (client w3)
         then scheduleReconnect e w3
         else w3\<lparr>client := call (OnConnectionStatus Disconnected) (client w3)\<rparr>)"

definition cleanup :: "'d world \<Rightarrow> 'd world" where
  "cleanup w =
     (let w1 = (case abortController (client w) of
                  None \<Rightarrow> w
                | Some s \<Rightarrow> w\<lparr>aborted := s # aborted w,
                               client := (client w)\<lparr>abortController := None\<rparr>\<rparr>);
          w2 = (case reconnectTimer (client w1) of
                  None \<Rightarrow> w1
                | Some t \<Rightarrow> w1\<lparr>timeouts := filter (\<lambda>(i, d). i \<noteq> t) (timeouts w1),
                                client := (client w1)\<lparr>reconnectTimer := None\<rparr>\<rparr>);
          w3 = stopHeartbeatMonitor w2
      in w3\<lparr>client := (client w3)\<lparr>isConnected := False\<rparr>\<rparr>)"

definition close :: "'d world \<Rightarrow> 'd world" where
  "close w = (let w1 = cleanup w
              in w1\<lparr>client := call (OnConnectionStatus Disconnected) (client w1)\<rparr>)"

text \<open>\<open>connect\<close> up to its first suspension, at \<open>await fetch(...)\<close>.\<close>

definition connect :: "'d world \<Rightarrow> 'd world" where
  "connect w =
     (let w1 = cleanup w; s = next_id w1
      in w1\<lparr>next_id := Suc s,
             client := call (OnConnectionStatus Connecting)
                         ((client w1)\<lparr>abortController := Some s\<rparr>),
             activations := activations w1 @ [(s, AwaitingFetch)]\<rparr>)"

text \<open>The \<open>catch\<close> block of \<open>connect\<close>.\<close>

definition catch_connect :: "env \<Rightarrow> jserror \<Rightarrow> 'd world \<Rightarrow> 'd world" where
  "catch_connect e err w =
     (if err_name err = ''AbortError'' then w else handleConnectionError e err w)"

definition end_activation :: "nat \<Rightarrow> 'd world \<Rightarrow> 'd world" where
  "end_activation s w = w\<lparr>activations := filter (\<lambda>(i, p). i \<noteq> s) (activations w)\<rparr>"

definition set_phase :: "nat \<Rightarrow> 'd phase \<Rightarrow> 'd world \<Rightarrow> 'd world" where
  "set_phase s p w =
     w\<lparr>activations := map (\<lambda>(i, q). if i = s then (i, p) else (i, q)) (activations w)\<rparr>"

fun show_nat :: "nat \<Rightarrow> string" where
  "show_nat n =
     (if n < 10 then [char_of (48 + n)]
      else show_nat (n div 10) @ [char_of (48 + n mod 10)])"

text \<open>
  What can happen to a client: the owner calls \<open>connect()\<close> or \<open>close()\<close>, or the
  platform resumes a suspended \<open>connect\<close> or runs a timer callback.
  \<^item> \<open>FetchResponse s ok status statusText hasBody\<close>: the \<open>fetch\<close> made with signal \<open>s\<close>
    resolves with a response;
  \<^item> \<open>FetchRejected s err\<close>: it rejects (a network failure);
  \<^item> \<open>ReadChunk s bytes\<close>, \<open>ReadDone s\<close>, \<open>ReadError s err\<close>: the pending
    \<open>reader.read()\<close> yields a chunk, yields \<open>done\<close>, or rejects;
  \<^item> \<open>AbortSettled s\<close>: the pending \<open>fetch\<close> or \<open>read\<close> of an aborted signal rejects with
    an \<open>AbortError\<close>;
  \<^item> \<open>TimeoutFired t\<close>, \<open>IntervalFired t\<close>: the platform runs a timer callback.
  \<open>step\<close> returns \<open>None\<close> for an event the platform cannot produce in that state: a
  timer that is not pending, a signal with no suspended \<open>connect\<close>, a result other
  than the \<open>AbortError\<close> on an aborted signal.
\<close>

datatype event =
    CallConnect
  | CallClose
  | FetchResponse nat bool nat string bool
  | FetchRejected nat jserror
  | ReadChunk nat "8 word list"
  | ReadDone nat
  | ReadError nat jserror
  | AbortSettled nat
  | TimeoutFired nat
  | IntervalFired nat

fun step :: "'d decoder \<Rightarrow> 'd \<Rightarrow> env \<Rightarrow> event \<Rightarrow> 'd world \<Rightarrow> 'd world option" where
  "step dec d0 e CallConnect w = Some (connect w)"
| "step dec d0 e CallClose w = Some (close w)"
| "step dec d0 e (FetchResponse s ok status statusText hasBody) w =
     (case map_of (activations w) s of
        Some AwaitingFetch \<Rightarrow>
          if s \<in> set (aborted w) then None
          else if \<not> ok then
            Some (catch_connect e
                    (JSError ''Error'' (''HTTP '' @ show_nat status @ '': '' @ statusText))
                    (end_activation s w))
          else if \<not> hasBody then
            Some (catch_connect e (JSError ''Error'' ''Response body is null'')
                    (end_activation s w))
          else
            Some (let c = (client w)\<lparr>isConnected := True, reconnectAttempts := 0,
                                      lastHeartbeat := date_now e\<rparr>;
                      w1 = startHeartbeatMonitor
                             (w\<lparr>client := call (OnConnectionStatus Connected) c\<rparr>)
                  in set_phase s (Reading \<lparr>rd_decoder = d0, rd_buffer = []\<rparr>) w1)
      | _ \<Rightarrow> None)"
| "step dec d0 e (FetchRejected s err) w =
     (case map_of (activations w) s of
        Some AwaitingFetch \<Rightarrow>
          if s \<in> set (aborted w) then None
          else Some (catch_connect e err (end_activation s w))
      | _ \<Rightarrow> None)"
| "step dec d0 e (ReadChunk s bytes) w =
     (case map_of (activations w) s of
        Some (Reading r) \<Rightarrow>
          if s \<in> set (aborted w) then None
          else (let (r', c') = read_chunk dec (date_now e) bytes (r, client w)
                in Some (set_phase s (Reading r') (w\<lparr>client := c'\<rparr>)))
      | _ \<Rightarrow> None)"
| "step dec d0 e (ReadDone s) w =
     (case map_of (activations w) s of
        Some (Reading r) \<Rightarrow>
          if s \<in> set (aborted w) then None else Some (end_activation s w)
      | _ \<Rightarrow> None)"
| "step dec d0 e (ReadError s err) w =
     (case map_of (activations w) s of
        Some (Reading r) \<Rightarrow>
          if s \<in> set (aborted w) then None
          else Some (catch_connect e err (end_activation s w))
      | _ \<Rightarrow> None)"
| "step dec d0 e (AbortSettled s) w =
     (case map_of (activations w) s of
        Some p \<Rightarrow>
          if s \<in> set (aborted w)
          then Some (catch_connect e (JSError ''AbortError'' ''The operation was aborted.'')
                       (end_activation s w))
          else None
      | None \<Rightarrow> None)"
| "step dec d0 e (TimeoutFired t) w =
     (if t \<in> set (map fst (timeouts w))
      then Some (connect (w\<lparr>timeouts := filter (\<lambda>(i, d). i \<noteq> t) (timeouts w),
                             client := (client w)\<lparr>reconnectAttempts :=
                                          Suc (reconnectAttempts (client w))\<rparr>\<rparr>))
      else None)"
| "step dec d0 e (IntervalFired t) w =
     (if t \<in> set (intervals w)
      then Some (if real_of_int (date_now e - lastHeartbeat (client w))
                      > heartbeatTimeoutMs (client w)
                 then handleConnectionError e (JSError ''Error'' ''Heartbeat timeout'') w
                 else w)
      else None)"

text \<open>A run: the events in order, each with the clock and the random sample of its handler.\<close>

fun run :: "'d decoder \<Rightarrow> 'd \<Rightarrow> (env \<times> event) list \<Rightarrow> 'd world \<Rightarrow> 'd world option" where
  "run dec d0 [] w = Some w"
| "run dec d0 ((e, ev) # evs) w =
     (case step dec d0 e ev w of None \<Rightarrow> None | Some w' \<Rightarrow> run dec d0 evs w')"

section \<open>The managed GET client: \<open>ResilientSSE\<close> (src/utils/fetch-sse.ts, second part)\<close>

text \<open>
  The reconnection logic of the \<open>EventSource\<close> wrapper, method by method: \<open>connect\<close>,
  the \<open>onopen\<close> handler, \<open>handleConnectionError\<close>, \<open>cleanup\<close>, \<open>close\<close>, the heartbeat
  monitor and the callback of the reconnection timer. Frames are parsed by the
  platform's \<open>EventSource\<close>, whose message handlers are not modelled. An
  \<open>EventSource\<close> is represented by an identifier, and the platform by the sources it
  holds open and the timers.
\<close>

record ResilientSSE =
  r_maxReconnectAttempts :: real
  r_initialBackoffMs :: real
  r_maxBackoffMs :: real
  r_heartbeatTimeoutMs :: real
  r_es :: "nat option"
  r_lastHeartbeat :: int
  r_heartbeatTimer :: "nat option"
  r_reconnectAttempts :: nat
  r_currentBackoffMs :: real
  r_isDestroyed :: bool
  r_calls :: "callback list"

record rworld =
  rclient :: ResilientSSE
  r_next_id :: nat
  r_timeouts :: "(nat \<times> real) list"
  r_intervals :: "nat list"
  r_sources :: "nat list"



definition r_call :: "callback \<Rightarrow> rworld \<Rightarrow> rworld" where
  "r_call cb w = w\<lparr>rclient := (rclient w)\<lparr>r_calls := r_calls (rclient w) @ [cb]\<rparr>\<rparr>"

definition r_stopHeartbeatMonitoring :: "rworld \<Rightarrow> rworld" where
  "r_stopHeartbeatMonitoring w =
     (case r_heartbeatTimer (rclient w) of
        None \<Rightarrow> w
      | Some t \<Rightarrow> w\<lparr>r_intervals := removeAll t (r_intervals w),
                     rclient := (rclient w)\<lparr>r_heartbeatTimer := None\<rparr>\<rparr>)"

definition r_startHeartbeatMonitoring :: "rworld \<Rightarrow> rworld" where
  "r_startHeartbeatMonitoring w =
     (let w1 = r_stopHeartbeatMonitoring w; t = r_next_id w1
      in w1\<lparr>r_next_id := Suc t, r_intervals := r_intervals w1 @ [t],
             rclient := (rclient w1)\<lparr>r_heartbeatTimer := Some t\<rparr>\<rparr>)"

definition r_cleanup :: "rworld \<Rightarrow> rworld" where
  "r_cleanup w =
     (let w1 = r_stopHeartbeatMonitoring w
      in case r_es (rclient w1) of
           None \<Rightarrow> w1
         | Some i \<Rightarrow> w1\<lparr>r_sources := removeAll i (r_sources w1),
                         rclient := (rclient w1)\<lparr>r_es := None\<rparr>\<rparr>)"

definition r_close :: "bool \<Rightarrow> rworld \<Rightarrow> rworld" where
  "r_close final w =
     (let w1 = r_cleanup w
      in if final
         then r_call (OnConnectionStatus Disconnected)
                (w1\<lparr>rclient := (rclient w1)\<lparr>r_isDestroyed := True\<rparr>\<rparr>)
         else w1)"

text \<open>\<open>connect\<close>: the guard, the status callback and the new \<open>EventSource\<close>.\<close>

definition r_connect :: "rworld \<Rightarrow> rworld" where
  "r_connect w =
     (if r_isDestroyed (rclient w) then w
      else (let w1 = r_call (OnConnectionStatus Connecting) w; i = r_next_id w1
            in w1\<lparr>r_next_id := Suc i, r_sources := r_sources w1 @ [i],
                   rclient := (rclient w1)\<lparr>r_es := Some i\<rparr>\<rparr>))"

text \<open>The \<open>onopen\<close> handler.\<close>

definition r_onopen :: "env \<Rightarrow> rworld \<Rightarrow> rworld" where
  "r_onopen e w =
     (let w1 = r_call (OnConnectionStatus Connected) w
      in r_startHeartbeatMonitoring
           (w1\<lparr>rclient := (rclient w1)\<lparr>r_reconnectAttempts := 0,
                                          r_currentBackoffMs := r_initialBackoffMs (rclient w1),
                                          r_lastHeartbeat := date_now e\<rparr>\<rparr>))"

definition r_handleConnectionError :: "env \<Rightarrow> rworld \<Rightarrow> rworld" where
  "r_handleConnectionError e w =
     (if r_isDestroyed (rclient w) \<or> r_es (rclient w) = None then w
      else (let w1 = r_cleanup w
            in if real (r_reconnectAttempts (rclient w1)) \<ge> r_maxReconnectAttempts (rclient w1)
               then r_call (OnError (JSError ''Error'' ''Max reconnection attempts reached''))
                      (r_call (OnConnectionStatus Disconnected) w1)
               else (let backoffIndex = min (r_reconnectAttempts (rclient w1))
                                            (length BACKOFF_SCHEDULE - 1);
                         baseBackoff = BACKOFF_SCHEDULE ! backoffIndex;
                         jitter = math_random e * 500;
                         delay = min (baseBackoff + jitter) (r_maxBackoffMs (rclient w1));
                         w2 = r_call (OnConnectionStatus Reconnecting) w1;
                         t = r_next_id w2
                     in w2\<lparr>r_next_id := Suc t, r_timeouts := r_timeouts w2 @ [(t, delay)],
                            rclient := (rclient w2)\<lparr>r_reconnectAttempts :=
                                           Suc (r_reconnectAttempts (rclient w2))\<rparr>\<rparr>)))"

text \<open>The callback of the reconnection timer and the periodic heartbeat check.\<close>

definition r_reconnect_callback :: "rworld \<Rightarrow> rworld" where
  "r_reconnect_callback w = (if r_isDestroyed (rclient w) then w else r_connect w)"

definition r_heartbeat_check :: "env \<Rightarrow> rworld \<Rightarrow> rworld" where
  "r_heartbeat_check e w =
     (if real_of_int (date_now e - r_lastHeartbeat (rclient w)) > r_heartbeatTimeoutMs (rclient w)
      then r_handleConnectionError e w
      else w)"

section \<open>The chunk-safe stream processor of the chat hook (src/hooks/useCourseAdvisorChat.ts)\<close>

text \<open>\<open>buf.indexOf("\n\n")\<close>; \<open>None\<close> stands for \<open>-1\<close>.\<close>

fun indexOf_lflf :: "jsstring \<Rightarrow> nat option" where
  "indexOf_lflf (a # b # r) =
     (if a = LF \<and> b = LF then Some 0 else map_option Suc (indexOf_lflf (b # r)))"
| "indexOf_lflf _ = None"

text \<open>
  The field loop over the lines of one frame: \<open>event\<close> starts as \<open>"message"\<close>, \<open>data\<close> as
  the empty string.
\<close>

definition parse_frame :: "jsstring \<Rightarrow> jsstring \<times> jsstring" where
  "parse_frame frame =
     foldl (\<lambda>(event, data) line.
              if startsWith line (js ''event:'') then (trim (drop 6 line), data)
              else if startsWith line (js ''data:'') then (event, data @ trim (drop 5 line))
              else (event, data))
           (js ''message'', []) (split_lf frame)"

text \<open>
  The handlers the processor calls. \<open>JSON.parse\<close> is a primitive of the platform and
  is a parameter: \<open>parse\<close> returns \<open>None\<close> where \<open>JSON.parse\<close> throws, and \<open>is_done chunk\<close>
  is the test \<open>chunk.chunk_type === 'done'\<close>.
\<close>

datatype 'j hook_call = OnChunk 'j | OnHeartbeatPing

record 'j frames_state =
  fs_buf :: jsstring
  fs_calls :: "'j hook_call list"
  fs_returned :: bool

text \<open>
  The inner \<open>while\<close> loop. \<open>continue\<close> goes on with the next frame of the buffer,
  \<open>return\<close> (on \<open>[DONE]\<close>) ends the whole function, and the \<open>break\<close> after a chunk of
  type \<open>done\<close> leaves this loop only: the outer loop then reads the next chunk.
\<close>

function frames_loop ::
  "(jsstring \<Rightarrow> 'j option) \<Rightarrow> ('j \<Rightarrow> bool) \<Rightarrow> 'j frames_state \<Rightarrow> 'j frames_state" where
  "frames_loop parse is_done st =
     (case indexOf_lflf (fs_buf st) of
        None \<Rightarrow> st
      | Some idx \<Rightarrow>
          (let frame = take idx (fs_buf st);
               st1 = st\<lparr>fs_buf := drop (idx + 2) (fs_buf st)\<rparr>;
               (event, data) = parse_frame frame
           in if event = js ''ping'' then
                frames_loop parse is_done (st1\<lparr>fs_calls := fs_calls st1 @ [OnHeartbeatPing]\<rparr>)
              else if data = js ''[DONE]'' then st1\<lparr>fs_returned := True\<rparr>
              else if data = [] \<or> data = js ''{}'' then frames_loop parse is_done st1
              else (case parse data of
                      None \<Rightarrow> frames_loop parse is_done st1
                    | Some chunk \<Rightarrow>
                        (let st2 = st1\<lparr>fs_calls := fs_calls st1 @ [OnChunk chunk]\<rparr>
                         in if is_done chunk then st2
                            else frames_loop parse is_done st2))))"
  by pat_completeness auto
termination
proof (relation "measure (\<lambda>(parse, is_done, st). length (fs_buf st))")
  show "wf (measure (\<lambda>(parse, is_done, st). length (fs_buf st)))" by simp
qed (auto elim!: indexOf_lflf.elims)

text \<open>
  The locals of \<open>processSSEStream\<close> between two reads, and whether the outer loop has
  been left (by the \<open>return\<close>, or by the \<open>break\<close> on an aborted signal).
\<close>

record ('d, 'j) hook_state =
  hk_decoder :: 'd
  hk_frames :: "'j frames_state"
  hk_stopped :: bool

definition hook_init :: "'d \<Rightarrow> ('d, 'j) hook_state" where
  "hook_init d0 = \<lparr>hk_decoder = d0,
     hk_frames = \<lparr>fs_buf = [], fs_calls = [], fs_returned = False\<rparr>, hk_stopped = False\<rparr>"

text \<open>
  One iteration of the outer loop for a read that yields the bytes \<open>bytes\<close>, while
  \<open>handlers.signal.aborted\<close> has the value \<open>is_aborted\<close>.
\<close>

definition hook_read ::
  "'d decoder \<Rightarrow> (jsstring \<Rightarrow> 'j option) \<Rightarrow> ('j \<Rightarrow> bool) \<Rightarrow> bool \<times> 8 word list
     \<Rightarrow> ('d, 'j) hook_state \<Rightarrow> ('d, 'j) hook_state" where
  "hook_read dec parse is_done rd h =
     (if hk_stopped h then h
      else if fst rd then h\<lparr>hk_stopped := True\<rparr>
      else (let (d', text) = decode dec (hk_decoder h) (snd rd);
                fr = hk_frames h;
                fr' = frames_loop parse is_done (fr\<lparr>fs_buf := fs_buf fr @ text\<rparr>)
            in \<lparr>hk_decoder = d', hk_frames = fr', hk_stopped = fs_returned fr'\<rparr>))"

text \<open>
  \<open>processSSEStream\<close> on a stream that delivers \<open>reads\<close> and then ends: the calls made
  to the handlers, in order.
\<close>

definition processSSEStream ::
  "'d decoder \<Rightarrow> 'd \<Rightarrow> (jsstring \<Rightarrow> 'j option) \<Rightarrow> ('j \<Rightarrow> bool) \<Rightarrow> (bool \<times> 8 word list) list
     \<Rightarrow> 'j hook_call list" where
  "processSSEStream dec d0 parse is_done reads =
     fs_calls (hk_frames (foldl (\<lambda>h rd. hook_read dec parse is_done rd h) (hook_init d0) reads))"

section \<open>Instances of the platform primitives\<close>

subsection \<open>The UTF-8 decoder of \<open>TextDecoder\<close>\<close>

text \<open>
  The decoder of the Encoding Standard in replacement mode: malformed input gives
  U+FFFD, a byte that cannot continue a sequence is read again as the start of the
  next one, a leading byte order mark is dropped, and a code point beyond the basic
  plane becomes a surrogate pair.
\<close>

record utf8_state =
  u_code_point :: int
  u_bytes_seen :: int
  u_bytes_needed :: int
  u_lower :: int
  u_upper :: int
  u_bom_seen :: bool

definition utf8_init :: utf8_state where
  "utf8_init = \<lparr>u_code_point = 0, u_bytes_seen = 0, u_bytes_needed = 0,
     u_lower = 0x80, u_upper = 0xBF, u_bom_seen = False\<rparr>"

definition utf16_units :: "int \<Rightarrow> jsstring" where
  "utf16_units cp =
     (if cp < 0x10000 then [word_of_int cp]
      else [word_of_int (0xD800 + (cp - 0x10000) div 0x400),
            word_of_int (0xDC00 + (cp - 0x10000) mod 0x400)])"

definition utf8_emit :: "utf8_state \<Rightarrow> int \<Rightarrow> utf8_state \<times> jsstring" where
  "utf8_emit st cp =
     (if u_bom_seen st then (st, utf16_units cp)
      else (st\<lparr>u_bom_seen := True\<rparr>, if cp = 0xFEFF then [] else utf16_units cp))"

definition utf8_reset :: "utf8_state \<Rightarrow> utf8_state" where
  "utf8_reset st = st\<lparr>u_code_point := 0, u_bytes_seen := 0, u_bytes_needed := 0,
     u_lower := 0x80, u_upper := 0xBF\<rparr>"

text \<open>A byte read while no sequence is open.\<close>

definition utf8_lead :: "utf8_state \<Rightarrow> int \<Rightarrow> utf8_state \<times> jsstring" where
  "utf8_lead st b =
     (if b \<le> 0x7F then utf8_emit st b
      else if 0xC2 \<le> b \<and> b \<le> 0xDF then
        (st\<lparr>u_bytes_needed := 1, u_code_point := b mod 0x20\<rparr>, [])
      else if 0xE0 \<le> b \<and> b \<le> 0xEF then
        (st\<lparr>u_lower := (if b = 0xE0 then 0xA0 else u_lower st),
             u_upper := (if b = 0xED then 0x9F else u_upper st),
             u_bytes_needed := 2, u_code_point := b mod 0x10\<rparr>, [])
      else if 0xF0 \<le> b \<and> b \<le> 0xF4 then
        (st\<lparr>u_lower := (if b = 0xF0 then 0x90 else u_lower st),
             u_upper := (if b = 0xF4 then 0x8F else u_upper st),
             u_bytes_needed := 3, u_code_point := b mod 0x08\<rparr>, [])
      else utf8_emit st 0xFFFD)"

definition utf8_decoder :: "utf8_state decoder" where
  "utf8_decoder st byte =
     (let b = uint byte
      in if u_bytes_needed st = 0 then utf8_lead st b
         else if b < u_lower st \<or> u_upper st < b then
           (let (st1, s1) = utf8_emit (utf8_reset st) 0xFFFD;
                (st2, s2) = utf8_lead st1 b
            in (st2, s1 @ s2))
         else
           (let st1 = st\<lparr>u_lower := 0x80, u_upper := 0xBF,
                           u_code_point := u_code_point st * 0x40 + b mod 0x40,
                           u_bytes_seen := u_bytes_seen st + 1\<rparr>
            in if u_bytes_seen st1 \<noteq> u_bytes_needed st1 then (st1, [])
               else utf8_emit (utf8_reset st1) (u_code_point st1)))"

text \<open>The bytes of an ASCII literal.\<close>

definition bytes :: "string \<Rightarrow> 8 word list" where
  "bytes s = map (\<lambda>c. of_char c) s"

subsection \<open>\<open>JSON.parse\<close> on flat objects\<close>

text \<open>
  For the examples: \<open>JSON.parse\<close> on the texts \<open>{"k":"v",...}\<close> whose members are
  strings without escapes, written without white space. On these texts the result
  is the object \<open>JSON.parse\<close> returns; every other text is rejected here, so the
  examples use texts of this form only.
\<close>

datatype json = JString jsstring | JObject "(jsstring \<times> json) list"

fun json_string :: "jsstring \<Rightarrow> (jsstring \<times> jsstring) option" where
  "json_string [] = None"
| "json_string (c # cs) =
     (if c = 0x22 then Some ([], cs)
      else if c = 0x5C \<or> c < 0x20 then None
      else (case json_string cs of None \<Rightarrow> None | Some (s, r) \<Rightarrow> Some (c # s, r)))"

fun json_members :: "nat \<Rightarrow> jsstring \<Rightarrow> (jsstring \<times> json) list option" where
  "json_members 0 s = None"
| "json_members (Suc n) s =
     (case s of
        [] \<Rightarrow> None
      | q # r \<Rightarrow>
          if q = 0x22 then
               (case json_string r of
                  None \<Rightarrow> None
                | Some (k, r1) \<Rightarrow>
                    (case r1 of
                       c # q2 # r2 \<Rightarrow>
                         if c = COLON \<and> q2 = 0x22 then
                           (case json_string r2 of
                              None \<Rightarrow> None
                            | Some (v, r3) \<Rightarrow>
                                if r3 = [0x7D] then Some [(k, JString v)]
                                else (case r3 of
                                        d # r4 \<Rightarrow>
                                          if d = 0x2C
                                          then map_option ((#) (k, JString v)) (json_members n r4)
                                          else None
                                      | [] \<Rightarrow> None))
                         else None
                     | _ \<Rightarrow> None))
          else None)"

definition parse_flat_object :: "jsstring \<Rightarrow> json option" where
  "parse_flat_object s =
     (case s of
        [] \<Rightarrow> None
      | b # r \<Rightarrow> if b = 0x7B then map_option JObject (json_members (length r) r) else None)"

text \<open>\<open>chunk.chunk_type === 'done'\<close>; of two members with the same name the later one counts.\<close>

definition chunk_type_is_done :: "json \<Rightarrow> bool" where
  "chunk_type_is_done j =
     (case j of
        JObject ms \<Rightarrow> map_of (rev ms) (js ''chunk_type'') = Some (JString (js ''done''))
      | _ \<Rightarrow> False)"

section \<open>The message data and the backoff delay as the specification states them\<close>

text \<open>
  Section 4.5 of the specification: for the attempt index \<open>k\<close> the base delay is
  \<open>schedule[min(k, len(schedule) - 1)]\<close> over the schedule 1s, 2s, 4s, 8s, 16s, 30s, and
  the final delay is \<open>min(baseDelay + jitter, maxBackoffMs)\<close>. Delays are real numbers
  of milliseconds; the rounding of double arithmetic is not modelled.
\<close>

text \<open>
  Section 3 of the specification: the data of a message is the join of the data-line
  values of the frame with \<open>\n\<close> between them.
\<close>

fun join_lf :: "jsstring list \<Rightarrow> jsstring" where
  "join_lf [] = []"
| "join_lf [v] = v"
| "join_lf (v # w # vs) = v @ LF # join_lf (w # vs)"



section \<open>Properties of the string primitives\<close>

lemma trim_empty_iff: "trim s = [] \<longleftrightarrow> list_all isWhiteSpace s"
proof
  assume t: "trim s = []"
  have "dropWhile isWhiteSpace s = []"
  proof (rule ccontr)
    assume ne: "dropWhile isWhiteSpace s \<noteq> []"
    then have "\<not> isWhiteSpace (hd (dropWhile isWhiteSpace s))" by (rule hd_dropWhile)
    moreover from t have "\<forall>x\<in>set (dropWhile isWhiteSpace s). isWhiteSpace x"
      by (simp add: trim_def dropWhile_eq_Nil_conv)
    ultimately show False using ne by (meson hd_in_set)
  qed
  then show "list_all isWhiteSpace s" by (simp add: dropWhile_eq_Nil_conv list_all_iff)
next
  assume "list_all isWhiteSpace s"
  then show "trim s = []"
    unfolding trim_def by (auto simp: list_all_iff dest: set_dropWhileD)
qed

lemma trim_decompose:
  "\<exists>l r. s = l @ trim s @ r \<and> list_all isWhiteSpace l \<and> list_all isWhiteSpace r"
proof -
  let ?l = "takeWhile isWhiteSpace s"
  let ?m = "dropWhile isWhiteSpace s"
  let ?r = "rev (takeWhile isWhiteSpace (rev ?m))"
  have "rev ?m = takeWhile isWhiteSpace (rev ?m) @ dropWhile isWhiteSpace (rev ?m)" by simp
  then have "?m = rev (dropWhile isWhiteSpace (rev ?m)) @ ?r"
    by (metis rev_append rev_rev_ident)
  then have "s = ?l @ trim s @ ?r"
    unfolding trim_def by (metis takeWhile_dropWhile_id)
  moreover have "list_all isWhiteSpace ?l"
    by (simp add: list_all_iff) (meson set_takeWhileD)
  moreover have "list_all isWhiteSpace ?r"
    by (simp add: list_all_iff) (meson set_takeWhileD)
  ultimately show ?thesis by blast
qed

lemma trim_hd: "trim s \<noteq> [] \<Longrightarrow> \<not> isWhiteSpace (hd (trim s))"
proof -
  assume ne: "trim s \<noteq> []"
  let ?m = "dropWhile isWhiteSpace s"
  from ne have m: "?m \<noteq> []" by (auto simp: trim_def dest: set_dropWhileD)
  have dec: "?m = trim s @ rev (takeWhile isWhiteSpace (rev ?m))"
    unfolding trim_def by (metis rev_append rev_rev_ident takeWhile_dropWhile_id)
  from ne dec have "hd (trim s) = hd ?m" by (metis hd_append2)
  with m show ?thesis by (metis hd_dropWhile)
qed

lemma trim_last: "trim s \<noteq> [] \<Longrightarrow> \<not> isWhiteSpace (last (trim s))"
proof -
  assume ne: "trim s \<noteq> []"
  let ?d = "dropWhile isWhiteSpace (rev (dropWhile isWhiteSpace s))"
  from ne have d: "?d \<noteq> []" by (simp add: trim_def)
  then have "\<not> isWhiteSpace (hd ?d)" by (rule hd_dropWhile)
  moreover have "last (trim s) = hd ?d" using d by (simp add: trim_def last_rev)
  ultimately show ?thesis by simp
qed

lemma COLON_not_ws: "\<not> isWhiteSpace COLON"
  by (simp add: isWhiteSpace_def COLON_def)

lemma js_colon: "js '':'' = [COLON]"
  by (simp add: js_def COLON_def)

lemma startsWith_colon_not_blank: "startsWith line (js '':'') \<Longrightarrow> trim line \<noteq> []"
  by (cases line) (auto simp: startsWith_def js_colon trim_empty_iff COLON_not_ws)

lemma indexOf_None_iff: "indexOf s c = None \<longleftrightarrow> c \<notin> set s"
  by (induction s) auto

lemma indexOf_append_fresh: "c \<notin> set p \<Longrightarrow> indexOf (p @ c # r) c = Some (length p)"
  by (induction p) auto

lemma startsWith_append: "startsWith (p @ r) p"
  by (simp add: startsWith_def)

lemma startsWith_set: "startsWith s p \<Longrightarrow> set p \<subseteq> set s"
  unfolding startsWith_def by (metis set_take_subset)

lemma COLON_in_prefixes:
  "COLON \<in> set (js '':'')" "COLON \<in> set (js ''data:'')" "COLON \<in> set (js ''event:'')"
  "COLON \<in> set (js ''id:'')" "COLON \<in> set (js ''retry:'')"
  by (simp_all add: js_def COLON_def)

lemma messages_append: "messages (xs @ ys) = messages xs @ messages ys"
  by (induction xs rule: messages.induct) auto

lemma split_lf_ne: "split_lf s \<noteq> []"
  by (induction s) (auto split: list.splits)

lemma split_lf_no_lf: "LF \<notin> set a \<Longrightarrow> split_lf a = [a]"
  by (induction a) auto

lemma split_lf_append_lf: "LF \<notin> set a \<Longrightarrow> split_lf (a @ LF # b) = a # split_lf b"
  by (induction a) auto

lemma split_lf_append:
  "split_lf (a @ b) = butlast (split_lf a) @ split_lf (last (split_lf a) @ b)"
proof (induction a)
  case Nil show ?case by simp
next
  case (Cons c cs)
  obtain l ls where s: "split_lf cs = l # ls"
    using split_lf_ne[of cs] by (cases "split_lf cs") auto
  show ?case
  proof (cases "c = LF")
    case True
    with Cons show ?thesis by (simp add: split_lf_ne)
  next
    case False
    show ?thesis
    proof (cases ls)
      case Nil
      with Cons s have e: "split_lf (cs @ b) = split_lf (l @ b)" by simp
      obtain m ms where t: "split_lf (l @ b) = m # ms"
        using split_lf_ne[of "l @ b"] by (cases "split_lf (l @ b)") auto
      from False Nil s e t show ?thesis by simp
    next
      case (Cons y ys)
      with Cons.IH s False show ?thesis by simp
    qed
  qed
qed

section \<open>Lines of the manual POST client\<close>

lemma comment_line:
  assumes "startsWith line (js '':'')"
  shows "processSSELine now line c = c\<lparr>lastHeartbeat := now, calls := calls c @ [OnHeartbeat]\<rparr>"
  using assms by (simp add: processSSELine_def call_def)

lemma no_colon_line:
  assumes "indexOf line COLON = None" and "trim line \<noteq> []"
  shows "processSSELine now line c = c\<lparr>lastHeartbeat := now\<rparr>"
proof -
  from assms(1) have nc: "COLON \<notin> set line" by (simp add: indexOf_None_iff)
  have "\<not> startsWith line p" if "COLON \<in> set p" for p
    using that nc startsWith_set by blast
  then show ?thesis
    using assms(2) by (simp add: processSSELine_def COLON_in_prefixes Let_def)
qed

lemma blank_line:
  assumes "trim line = []"
  shows "processSSELine now line c = dispatchEvent (c\<lparr>lastHeartbeat := now\<rparr>)"
  using assms startsWith_colon_not_blank[of line] by (auto simp: processSSELine_def Let_def)

lemma js_data_colon: "js ''data:'' = js ''data'' @ [COLON]"
  and js_event_colon: "js ''event:'' = js ''event'' @ [COLON]"
  and js_id_colon: "js ''id:'' = js ''id'' @ [COLON]"
  and js_retry_colon: "js ''retry:'' = js ''retry'' @ [COLON]"
  by (simp_all add: js_def COLON_def)

lemma field_names_no_colon:
  "COLON \<notin> set (js ''data'')" "COLON \<notin> set (js ''event'')"
  "COLON \<notin> set (js ''id'')" "COLON \<notin> set (js ''retry'')"
  by (simp_all add: js_def COLON_def)

lemma field_names_distinct:
  "js ''event'' \<noteq> js ''data''" "js ''id'' \<noteq> js ''data''" "js ''retry'' \<noteq> js ''data''"
  "js ''id'' \<noteq> js ''event''" "js ''retry'' \<noteq> js ''event''" "js ''retry'' \<noteq> js ''id''"
  by (simp_all add: js_def)

text \<open>A line \<open>name:value\<close> whose name is one of the four fields reaches \<open>parseSSEEvent\<close>.\<close>

lemma field_line:
  assumes f: "f \<in> {js ''data'', js ''event'', js ''id'', js ''retry''}"
  shows "processSSELine now (f @ COLON # v) c = parseSSEEvent (f @ COLON # v) (c\<lparr>lastHeartbeat := now\<rparr>)"
proof -
  have nb: "trim (f @ COLON # v) \<noteq> []"
    by (simp add: trim_empty_iff COLON_not_ws)
  have nc: "\<not> startsWith (f @ COLON # v) (js '':'')"
    using f by (auto simp: startsWith_def js_def COLON_def)
  have sw: "startsWith (f @ COLON # v) (f @ [COLON])"
    by (simp add: startsWith_def)
  from f sw have "startsWith (f @ COLON # v) (js ''data:'') \<or> startsWith (f @ COLON # v) (js ''event:'')
      \<or> startsWith (f @ COLON # v) (js ''id:'') \<or> startsWith (f @ COLON # v) (js ''retry:'')"
    by (auto simp: js_data_colon js_event_colon js_id_colon js_retry_colon)
  with nb nc show ?thesis by (simp add: processSSELine_def Let_def)
qed

lemma parse_field:
  assumes "COLON \<notin> set f"
  shows "parseSSEEvent (f @ COLON # v) c =
     (let val = trim v; ev = currentEvent c
      in if f = js ''data'' then
           c\<lparr>currentEvent := ev\<lparr>pe_data := Some (or_empty (pe_data ev) @ val @ [LF])\<rparr>\<rparr>
         else if f = js ''event'' then c\<lparr>currentEvent := ev\<lparr>pe_event := Some val\<rparr>\<rparr>
         else if f = js ''id'' then c\<lparr>currentEvent := ev\<lparr>pe_id := Some val\<rparr>\<rparr>
         else if f = js ''retry'' then c\<lparr>currentEvent := ev\<lparr>pe_retry := Some (parseInt10 val)\<rparr>\<rparr>
         else c)"
  using indexOf_append_fresh[OF assms, of v] by (simp add: parseSSEEvent_def Let_def)

lemma data_line:
  "processSSELine now (js ''data:'' @ v) c =
     c\<lparr>lastHeartbeat := now,
       currentEvent := (currentEvent c)\<lparr>pe_data := Some (or_empty (pe_data (currentEvent c)) @ trim v @ [LF])\<rparr>\<rparr>"
  using field_line[of "js ''data''" now v c]
  by (simp add: js_data_colon parse_field field_names_no_colon Let_def)

lemma event_line:
  "processSSELine now (js ''event:'' @ v) c =
     c\<lparr>lastHeartbeat := now, currentEvent := (currentEvent c)\<lparr>pe_event := Some (trim v)\<rparr>\<rparr>"
  using field_line[of "js ''event''" now v c]
  by (simp add: js_event_colon parse_field field_names_no_colon field_names_distinct Let_def)

lemma id_line:
  "processSSELine now (js ''id:'' @ v) c =
     c\<lparr>lastHeartbeat := now, currentEvent := (currentEvent c)\<lparr>pe_id := Some (trim v)\<rparr>\<rparr>"
  using field_line[of "js ''id''" now v c]
  by (simp add: js_id_colon parse_field field_names_no_colon field_names_distinct Let_def)

lemma retry_line:
  "processSSELine now (js ''retry:'' @ v) c =
     c\<lparr>lastHeartbeat := now,
       currentEvent := (currentEvent c)\<lparr>pe_retry := Some (parseInt10 (trim v))\<rparr>\<rparr>"
  using field_line[of "js ''retry''" now v c]
  by (simp add: js_retry_colon parse_field field_names_no_colon field_names_distinct Let_def)

lemma hook_single_data_line:
  assumes "LF \<notin> set v"
  shows "parse_frame (js ''data:'' @ v) = (js ''message'', trim v)"
proof -
  have "LF \<notin> set (js ''data:'' @ v)" using assms by (simp add: js_def LF_def)
  then have s: "split_lf (js ''data:'' @ v) = [js ''data:'' @ v]" by (rule split_lf_no_lf)
  have ne: "\<not> startsWith (js ''data:'' @ v) (js ''event:'')"
    by (simp add: startsWith_def js_def)
  have d: "drop 5 (js ''data:'') = []" "length (js ''data:'') = 5" by (simp_all add: js_def)
  show ?thesis by (simp add: parse_frame_def s ne startsWith_append d)
qed

section \<open>The reconnection controllers\<close>

lemma stopHeartbeatMonitor_keeps:
  "timeouts (stopHeartbeatMonitor w) = timeouts w"
  "next_id (stopHeartbeatMonitor w) = next_id w"
  "calls (client (stopHeartbeatMonitor w)) = calls (client w)"
  "reconnectAttempts (client (stopHeartbeatMonitor w)) = reconnectAttempts (client w)"
  "maxReconnectAttempts (client (stopHeartbeatMonitor w)) = maxReconnectAttempts (client w)"
  "maxBackoffMs (client (stopHeartbeatMonitor w)) = maxBackoffMs (client w)"
  by (simp_all add: stopHeartbeatMonitor_def split: option.split)

lemma fetch_exhaustion:
  assumes "\<not> real (reconnectAttempts (client w)) < maxReconnectAttempts (client w)"
  shows "calls (client (handleConnectionError e err w))
           = calls (client w) @ [OnError err, OnConnectionStatus Disconnected]"
    and "timeouts (handleConnectionError e err w) = timeouts w"
  using assms
  by (simp_all add: handleConnectionError_def Let_def call_def stopHeartbeatMonitor_keeps)

lemma fetch_retry:
  assumes "real (reconnectAttempts (client w)) < maxReconnectAttempts (client w)"
  shows "calls (client (handleConnectionError e err w))
           = calls (client w) @ [OnError err, OnConnectionStatus Reconnecting]"
  using assms
  by (simp add: handleConnectionError_def scheduleReconnect_def Let_def call_def
        stopHeartbeatMonitor_keeps)

lemma abort_is_silent:
  "catch_connect e (JSError ''AbortError'' msg) w = w"
  by (simp add: catch_connect_def)

lemma r_cleanup_keeps:
  "r_timeouts (r_cleanup w) = r_timeouts w"
  "r_next_id (r_cleanup w) = r_next_id w"
  "r_calls (rclient (r_cleanup w)) = r_calls (rclient w)"
  "r_reconnectAttempts (rclient (r_cleanup w)) = r_reconnectAttempts (rclient w)"
  "r_maxReconnectAttempts (rclient (r_cleanup w)) = r_maxReconnectAttempts (rclient w)"
  "r_maxBackoffMs (rclient (r_cleanup w)) = r_maxBackoffMs (rclient w)"
  "r_isDestroyed (rclient (r_cleanup w)) = r_isDestroyed (rclient w)"
  by (simp_all add: r_cleanup_def r_stopHeartbeatMonitoring_def Let_def split: option.split)

lemma resilient_exhaustion:
  assumes "\<not> r_isDestroyed (rclient w)" and "r_es (rclient w) \<noteq> None"
    and "real (r_reconnectAttempts (rclient w)) \<ge> r_maxReconnectAttempts (rclient w)"
  shows "r_calls (rclient (r_handleConnectionError e w))
           = r_calls (rclient w) @ [OnConnectionStatus Disconnected,
               OnError (JSError ''Error'' ''Max reconnection attempts reached'')]"
    and "r_timeouts (r_handleConnectionError e w) = r_timeouts w"
  using assms
  by (simp_all add: r_handleConnectionError_def Let_def r_call_def r_cleanup_keeps)

lemma resilient_close_terminal:
  "r_isDestroyed (rclient (r_close True w))"
  "r_es (rclient (r_close True w)) = None"
  "r_heartbeatTimer (rclient (r_close True w)) = None"
  "r_isDestroyed (rclient w) \<Longrightarrow> r_connect w = w"
  "r_isDestroyed (rclient w) \<Longrightarrow> r_reconnect_callback w = w"
  "r_isDestroyed (rclient w) \<Longrightarrow> r_handleConnectionError e w = w"
  by (simp_all add: r_close_def r_call_def r_connect_def r_reconnect_callback_def
        r_handleConnectionError_def r_cleanup_def r_stopHeartbeatMonitoring_def Let_def
      split: option.split)

section \<open>Chunk-size invariance of the manual POST client\<close>

lemma decode_append:
  "decode dec d (xs @ ys) =
     (let (d1, s1) = decode dec d xs; (d2, s2) = decode dec d1 ys in (d2, s1 @ s2))"
  by (induction xs arbitrary: d) (auto simp: Let_def split: prod.splits)

lemma processSSELine_view:
  assumes "parser_view c = parser_view c'"
  shows "parser_view (processSSELine now line c) = parser_view (processSSELine now' line c')"
  using assms
  by (auto simp: parser_view_def processSSELine_def parseSSEEvent_def dispatchEvent_def call_def
        Let_def split: option.splits)

lemma lines_view:
  assumes "parser_view c = parser_view c'"
  shows "parser_view (foldl (\<lambda>c line. processSSELine now line c) c ls)
       = parser_view (foldl (\<lambda>c line. processSSELine now' line c) c' ls)"
  using assms
proof (induction ls arbitrary: c c')
  case Nil then show ?case by simp
next
  case (Cons l ls)
  show ?case using Cons.IH[OF processSSELine_view[OF Cons.prems, of now l now']] by simp
qed

lemma feed_text_buffer: "fst (feed_text now text (buf, c)) = last (split_lf (buf @ text))"
  by (simp add: feed_text_def Let_def)

lemma feed_text_view:
  assumes "parser_view c = parser_view c'"
  shows "parser_view (snd (feed_text now text (buf, c)))
       = parser_view (snd (feed_text now' text (buf, c')))"
  using lines_view[OF assms] by (simp add: feed_text_def Let_def)

lemma feed_text_append:
  "fst (feed_text t2 b (feed_text t1 a (buf, c))) = fst (feed_text t (a @ b) (buf, c))"
  "parser_view (snd (feed_text t2 b (feed_text t1 a (buf, c))))
     = parser_view (snd (feed_text t (a @ b) (buf, c)))"
proof -
  let ?A = "split_lf (buf @ a)"
  let ?B = "split_lf (last ?A @ b)"
  have sp: "split_lf (buf @ a @ b) = butlast ?A @ ?B"
    using split_lf_append[of "buf @ a" b] by simp
  have ne: "?B \<noteq> []" by (rule split_lf_ne)
  have la: "last (butlast ?A @ ?B) = last ?B" using ne by simp
  have bl: "butlast (butlast ?A @ ?B) = butlast ?A @ butlast ?B"
    using ne by (simp add: butlast_append)
  show "fst (feed_text t2 b (feed_text t1 a (buf, c))) = fst (feed_text t (a @ b) (buf, c))"
    by (simp add: feed_text_def Let_def sp la)
  have v1: "parser_view (foldl (\<lambda>c line. processSSELine t1 line c) c (butlast ?A))
          = parser_view (foldl (\<lambda>c line. processSSELine t line c) c (butlast ?A))"
    by (rule lines_view) simp
  show "parser_view (snd (feed_text t2 b (feed_text t1 a (buf, c))))
     = parser_view (snd (feed_text t (a @ b) (buf, c)))"
    using lines_view[OF v1, of t2 "butlast ?B" t]
    by (simp add: feed_text_def Let_def sp bl)
qed

text \<open>The state of the read loop after some chunks.\<close>

lemma read_chunk_append:
  "rd_decoder (fst (read_chunk dec t2 b (read_chunk dec t1 a (r, c))))
     = rd_decoder (fst (read_chunk dec t (a @ b) (r, c)))"
  "rd_buffer (fst (read_chunk dec t2 b (read_chunk dec t1 a (r, c))))
     = rd_buffer (fst (read_chunk dec t (a @ b) (r, c)))"
  "parser_view (snd (read_chunk dec t2 b (read_chunk dec t1 a (r, c))))
     = parser_view (snd (read_chunk dec t (a @ b) (r, c)))"
proof -
  obtain d1 s1 where a: "decode dec (rd_decoder r) a = (d1, s1)" by force
  obtain d2 s2 where b: "decode dec d1 b = (d2, s2)" by force
  have ab: "decode dec (rd_decoder r) (a @ b) = (d2, s1 @ s2)"
    by (simp add: decode_append a b)
  obtain b1 c1 where f1: "feed_text t1 s1 (rd_buffer r, c) = (b1, c1)" by force
  have r1: "read_chunk dec t1 a (r, c) = (\<lparr>rd_decoder = d1, rd_buffer = b1\<rparr>, c1)"
    by (simp add: read_chunk_def a f1)
  obtain b2 c2 where f2: "feed_text t2 s2 (b1, c1) = (b2, c2)" by force
  have r2: "read_chunk dec t2 b (\<lparr>rd_decoder = d1, rd_buffer = b1\<rparr>, c1)
        = (\<lparr>rd_decoder = d2, rd_buffer = b2\<rparr>, c2)"
    by (simp add: read_chunk_def b f2)
  obtain b3 c3 where f3: "feed_text t (s1 @ s2) (rd_buffer r, c) = (b3, c3)" by force
  have r3: "read_chunk dec t (a @ b) (r, c) = (\<lparr>rd_decoder = d2, rd_buffer = b3\<rparr>, c3)"
    by (simp add: read_chunk_def ab f3)
  from feed_text_append[of t2 s2 t1 s1 "rd_buffer r" c t] f1 f2 f3
  have "b2 = b3" "parser_view c2 = parser_view c3" by simp_all
  then show
    "rd_decoder (fst (read_chunk dec t2 b (read_chunk dec t1 a (r, c))))
       = rd_decoder (fst (read_chunk dec t (a @ b) (r, c)))"
    "rd_buffer (fst (read_chunk dec t2 b (read_chunk dec t1 a (r, c))))
       = rd_buffer (fst (read_chunk dec t (a @ b) (r, c)))"
    "parser_view (snd (read_chunk dec t2 b (read_chunk dec t1 a (r, c))))
       = parser_view (snd (read_chunk dec t (a @ b) (r, c)))"
    by (simp_all add: r1 r2 r3)
qed

lemma read_chunk_view:
  assumes "parser_view c = parser_view c'"
  shows "fst (read_chunk dec t bs (r, c)) = fst (read_chunk dec t' bs (r, c'))"
    and "parser_view (snd (read_chunk dec t bs (r, c)))
       = parser_view (snd (read_chunk dec t' bs (r, c')))"
proof -
  obtain d1 s1 where a: "decode dec (rd_decoder r) bs = (d1, s1)" by force
  show "fst (read_chunk dec t bs (r, c)) = fst (read_chunk dec t' bs (r, c'))"
    by (simp add: read_chunk_def a feed_text_def Let_def split: prod.splits)
  show "parser_view (snd (read_chunk dec t bs (r, c)))
       = parser_view (snd (read_chunk dec t' bs (r, c')))"
    using feed_text_view[OF assms, of t s1 "rd_buffer r" t']
    by (auto simp: read_chunk_def a split: prod.splits)
qed

lemma read_chunk_empty:
  "rd_decoder (fst (read_chunk dec t [] (\<lparr>rd_decoder = d0, rd_buffer = []\<rparr>, c))) = d0"
  "rd_buffer (fst (read_chunk dec t [] (\<lparr>rd_decoder = d0, rd_buffer = []\<rparr>, c))) = []"
  "parser_view (snd (read_chunk dec t [] (\<lparr>rd_decoder = d0, rd_buffer = []\<rparr>, c))) = parser_view c"
  by (simp_all add: read_chunk_def feed_text_def Let_def)

lemma read_loop_chunk_invariant:
  fixes dec :: "'d decoder"
  defines "loop \<equiv> \<lambda>dec d0 c chunks. foldl (\<lambda>rc (now, bytes). read_chunk dec now bytes rc)
                (\<lparr>rd_decoder = d0, rd_buffer = []\<rparr>, c) chunks"
  shows "rd_decoder (fst (loop dec d0 c chunks)) = rd_decoder (fst (loop dec d0 c [(t, concat (map snd chunks))]))
       \<and> rd_buffer (fst (loop dec d0 c chunks)) = rd_buffer (fst (loop dec d0 c [(t, concat (map snd chunks))]))
       \<and> parser_view (snd (loop dec d0 c chunks)) = parser_view (snd (loop dec d0 c [(t, concat (map snd chunks))]))"
proof (induction chunks rule: rev_induct)
  case Nil
  show ?case by (simp add: loop_def read_chunk_empty)
next
  case (snoc x xs)
  obtain t' bs where x: "x = (t', bs)" by force
  let ?i = "(\<lparr>rd_decoder = d0, rd_buffer = []\<rparr>, c)"
  let ?all = "concat (map snd xs)"
  obtain r1 c1 where s1: "loop dec d0 c xs = (r1, c1)" by force
  obtain r2 c2 where s2: "read_chunk dec t ?all ?i = (r2, c2)" by force
  from snoc s1 s2 have eq: "rd_decoder r1 = rd_decoder r2" "rd_buffer r1 = rd_buffer r2"
    "parser_view c1 = parser_view c2"
    by (simp_all add: loop_def)
  then have r: "r1 = r2" by simp
  have step: "loop dec d0 c (xs @ [x]) = read_chunk dec t' bs (r1, c1)"
    by (simp add: loop_def x s1[unfolded loop_def])
  have one: "loop dec d0 c [(t, concat (map snd (xs @ [x])))] = read_chunk dec t (?all @ bs) ?i"
    by (simp add: loop_def x)
  have a: "fst (read_chunk dec t' bs (r1, c1)) = fst (read_chunk dec t' bs (r2, c2))"
    "parser_view (snd (read_chunk dec t' bs (r1, c1))) = parser_view (snd (read_chunk dec t' bs (r2, c2)))"
    using read_chunk_view[OF eq(3), of dec t' bs r2 t'] r by simp_all
  have b: "read_chunk dec t' bs (r2, c2) = read_chunk dec t' bs (read_chunk dec t ?all ?i)"
    by (simp add: s2)
  show ?case
    unfolding step one
    using a read_chunk_append[of dec t' bs t ?all "\<lparr>rd_decoder = d0, rd_buffer = []\<rparr>" c t]
    by (simp add: b)
qed

lemma processStream_chunk_invariant:
  "calls (processStream dec d0 chunks c) = calls (processStream dec d0 [(t, concat (map snd chunks))] c)"
  "currentEvent (processStream dec d0 chunks c)
     = currentEvent (processStream dec d0 [(t, concat (map snd chunks))] c)"
  using read_loop_chunk_invariant[of dec d0 c chunks t]
  by (simp_all add: processStream_def parser_view_def)

lemma processStream_messages_chunk_invariant:
  assumes "concat (map snd chunks) = concat (map snd chunks')"
  shows "messages (calls (processStream dec d0 chunks c))
       = messages (calls (processStream dec d0 chunks' c))"
  using processStream_chunk_invariant(1)[of dec d0 chunks c 0]
        processStream_chunk_invariant(1)[of dec d0 chunks' c 0] assms by simp

section \<open>Frames of data lines in the manual POST client\<close>

lemma LF_not_in_data_prefix: "LF \<notin> set (js ''data:'')"
  by (simp add: js_def LF_def)

lemma split_data_lines:
  assumes "\<forall>v\<in>set vs. LF \<notin> set v"
  shows "split_lf (concat (map (\<lambda>v. js ''data:'' @ v @ [LF]) vs) @ [LF])
       = map (\<lambda>v. js ''data:'' @ v) vs @ [[], []]"
  using assms
proof (induction vs)
  case Nil
  show ?case by simp
next
  case (Cons v vs)
  then have nl: "LF \<notin> set (js ''data:'' @ v)" by (simp add: LF_not_in_data_prefix)
  have "split_lf ((js ''data:'' @ v) @ LF # (concat (map (\<lambda>v. js ''data:'' @ v @ [LF]) vs) @ [LF]))
      = (js ''data:'' @ v) # split_lf (concat (map (\<lambda>v. js ''data:'' @ v @ [LF]) vs) @ [LF])"
    by (rule split_lf_append_lf[OF nl])
  with Cons show ?case by simp
qed

lemma data_lines_fold:
  "foldl (\<lambda>c line. processSSELine now line c) c (map (\<lambda>v. js ''data:'' @ v) vs) =
     (if vs = [] then c
      else c\<lparr>lastHeartbeat := now,
             currentEvent := (currentEvent c)\<lparr>pe_data :=
               Some (or_empty (pe_data (currentEvent c)) @ concat (map (\<lambda>v. trim v @ [LF]) vs))\<rparr>\<rparr>)"
proof (induction vs arbitrary: c)
  case Nil
  show ?case by simp
next
  case (Cons v vs)
  show ?case
    by (cases "vs = []") (simp_all add: Cons.IH data_line or_empty_def)
qed

lemma concat_lf_join:
  "vs \<noteq> [] \<Longrightarrow> concat (map (\<lambda>v. v @ [LF]) vs) = join_lf vs @ [LF]"
  by (induction vs rule: join_lf.induct) simp_all

lemma strip_trailing_lf_snoc: "strip_trailing_lf (s @ [LF]) = s"
  by (simp add: strip_trailing_lf_def)

lemma fetch_data_lines_joined:
  assumes "vs \<noteq> []" and "\<forall>v\<in>set vs. LF \<notin> set v" and "pe_data (currentEvent c) = None"
  shows "messages (calls (processText
            [(now, concat (map (\<lambda>v. js ''data:'' @ v @ [LF]) vs) @ [LF])] c))
       = messages (calls c) @
           [\<lparr>msg_data = join_lf (map trim vs), msg_event = pe_event (currentEvent c),
             msg_id = pe_id (currentEvent c), msg_retry = pe_retry (currentEvent c)\<rparr>]"
proof -
  have t0: "trim [] = []" by (simp add: trim_def)
  have j: "concat (map (\<lambda>v. trim v @ [LF]) vs) = join_lf (map trim vs) @ [LF]"
    using concat_lf_join[of "map trim vs"] assms(1) by (simp add: comp_def)
  show ?thesis
    using assms(1,3)
    by (simp add: processText_def feed_text_def Let_def split_data_lines[OF assms(2)]
          butlast_append data_lines_fold blank_line[OF t0] dispatchEvent_def call_def
          messages_append or_empty_def j strip_trailing_lf_snoc)
qed

lemma fetch_two_data_lines:
  "messages (calls (processText [(0, js ''data: hel\<newline>data: lo\<newline>\<newline>'')]
       (new_FetchSSEClient default_options)))
     = [\<lparr>msg_data = js ''hel\<newline>lo'', msg_event = None, msg_id = None, msg_retry = None\<rparr>]"
  by code_simp

section \<open>The event type in the stream processor of the chat hook\<close>

lemma hook_event_default:
  assumes "\<forall>line\<in>set (split_lf frame). \<not> startsWith line (js ''event:'')"
  shows "fst (parse_frame frame) = js ''message''"
proof -
  have "fst (foldl (\<lambda>(event, data) line.
              if startsWith line (js ''event:'') then (trim (drop 6 line), data)
              else if startsWith line (js ''data:'') then (event, data @ trim (drop 5 line))
              else (event, data)) (e, d) ls) = e"
    if "\<forall>line\<in>set ls. \<not> startsWith line (js ''event:'')" for e d ls
    using that by (induction ls arbitrary: e d) auto
  with assms show ?thesis by (simp add: parse_frame_def)
qed

section \<open>The stream processor of the chat hook on streams without a chunk of type done\<close>

lemma indexOf_lflf_bound: "indexOf_lflf a = Some i \<Longrightarrow> i + 2 \<le> length a"
  by (induction a arbitrary: i rule: indexOf_lflf.induct) (auto split: if_splits)

lemma indexOf_lflf_append: "indexOf_lflf a = Some i \<Longrightarrow> indexOf_lflf (a @ b) = Some i"
proof (induction a arbitrary: i rule: indexOf_lflf.induct)
  case (1 x y r)
  then show ?case by (auto split: if_splits)
qed simp_all

lemma frames_loop_append:
  "(\<forall>j. \<not> is_done j) \<Longrightarrow> \<not> fs_returned st \<Longrightarrow>
   frames_loop parse is_done (st\<lparr>fs_buf := fs_buf st @ t\<rparr>) =
     (let s1 = frames_loop parse is_done st
      in if fs_returned s1 then s1\<lparr>fs_buf := fs_buf s1 @ t\<rparr>
         else frames_loop parse is_done (s1\<lparr>fs_buf := fs_buf s1 @ t\<rparr>))"
proof (induction parse is_done st rule: frames_loop.induct)
  case (1 parse is_done st)
  note nd = "1.prems"(1) and nr = "1.prems"(2)
  show ?case
  proof (cases "indexOf_lflf (fs_buf st)")
    case None
    have "frames_loop parse is_done st = st"
      by (subst frames_loop.simps) (simp add: None)
    with nr show ?thesis by simp
  next
    case (Some idx)
    let ?st1 = "st\<lparr>fs_buf := drop (idx + 2) (fs_buf st)\<rparr>"
    let ?st1' = "?st1\<lparr>fs_buf := fs_buf ?st1 @ t\<rparr>"
    obtain event data where pf: "parse_frame (take idx (fs_buf st)) = (event, data)" by force
    have b: "idx + 2 \<le> length (fs_buf st)" using Some by (rule indexOf_lflf_bound)
    have i2: "indexOf_lflf (fs_buf st @ t) = Some idx" using Some by (rule indexOf_lflf_append)
    have tk: "take idx (fs_buf st @ t) = take idx (fs_buf st)" using b by simp
    have dr: "drop (idx + 2) (fs_buf st @ t) = drop (idx + 2) (fs_buf st) @ t" using b by simp
    have z: "idx - length (fs_buf st) = 0" "Suc (Suc idx) - length (fs_buf st) = 0"
      using b by simp_all
    have nr1: "\<not> fs_returned ?st1" using nr by simp
    have L: "frames_loop parse is_done st =
       (if event = js ''ping'' then
          frames_loop parse is_done (?st1\<lparr>fs_calls := fs_calls ?st1 @ [OnHeartbeatPing]\<rparr>)
        else if data = js ''[DONE]'' then ?st1\<lparr>fs_returned := True\<rparr>
        else if data = [] \<or> data = js ''{}'' then frames_loop parse is_done ?st1
        else (case parse data of
                None \<Rightarrow> frames_loop parse is_done ?st1
              | Some chunk \<Rightarrow>
                  frames_loop parse is_done (?st1\<lparr>fs_calls := fs_calls ?st1 @ [OnChunk chunk]\<rparr>)))"
      by (subst frames_loop.simps) (auto simp: Some pf Let_def nd simp del: frames_loop.simps split: option.split)
    have R: "frames_loop parse is_done (st\<lparr>fs_buf := fs_buf st @ t\<rparr>) =
       (if event = js ''ping'' then
          frames_loop parse is_done (?st1'\<lparr>fs_calls := fs_calls ?st1' @ [OnHeartbeatPing]\<rparr>)
        else if data = js ''[DONE]'' then ?st1'\<lparr>fs_returned := True\<rparr>
        else if data = [] \<or> data = js ''{}'' then frames_loop parse is_done ?st1'
        else (case parse data of
                None \<Rightarrow> frames_loop parse is_done ?st1'
              | Some chunk \<Rightarrow>
                  frames_loop parse is_done (?st1'\<lparr>fs_calls := fs_calls ?st1' @ [OnChunk chunk]\<rparr>)))"
      by (subst frames_loop.simps) (auto simp: i2 z pf Let_def nd simp del: frames_loop.simps split: option.split)
    consider (ping) "event = js ''ping''"
      | (fin) "event \<noteq> js ''ping''" "data = js ''[DONE]''"
      | (skip) "event \<noteq> js ''ping''" "data \<noteq> js ''[DONE]''" "data = [] \<or> data = js ''{}''"
      | (bad) "event \<noteq> js ''ping''" "data \<noteq> js ''[DONE]''" "\<not> (data = [] \<or> data = js ''{}'')"
              "parse data = None"
      | (chunk) c where "event \<noteq> js ''ping''" "data \<noteq> js ''[DONE]''"
              "\<not> (data = [] \<or> data = js ''{}'')" "parse data = Some c"
      by (cases "parse data") auto
    then show ?thesis
    proof cases
      case ping
      have "\<not> fs_returned (?st1\<lparr>fs_calls := fs_calls ?st1 @ [OnHeartbeatPing]\<rparr>)"
        using nr by simp
      from "1.IH"(1)[OF Some refl refl refl pf[symmetric] ping nd this]
      show ?thesis using L R ping by (cases st) (simp del: frames_loop.simps)
    next
      case fin
      then show ?thesis using L R by (cases st) (simp del: frames_loop.simps)
    next
      case skip
      from "1.IH"(2)[OF Some refl refl refl pf[symmetric] skip nd nr1]
      show ?thesis using L R skip by (cases st) (simp del: frames_loop.simps)
    next
      case bad
      from "1.IH"(3)[OF Some refl refl refl pf[symmetric] bad nd nr1]
      show ?thesis using L R bad by (cases st) (simp del: frames_loop.simps)
    next
      case chunk
      have ndc: "\<not> is_done c" using nd by simp
      have "\<not> fs_returned (?st1\<lparr>fs_calls := fs_calls ?st1 @ [OnChunk c]\<rparr>)"
        using nr by simp
      from "1.IH"(4)[OF Some refl refl refl pf[symmetric] chunk refl ndc nd this]
      show ?thesis using L R chunk by (cases st) (simp del: frames_loop.simps)
    qed
  qed
qed

lemma hook_read_stopped:
  "hk_stopped h \<Longrightarrow> hook_read dec parse is_done rd h = h"
  by (simp add: hook_read_def)

lemma hook_read_inv:
  assumes "hk_stopped h = fs_returned (hk_frames h)"
  shows "hk_stopped (hook_read dec parse is_done (False, bs) h)
       = fs_returned (hk_frames (hook_read dec parse is_done (False, bs) h))"
  using assms by (simp add: hook_read_def Let_def split: prod.splits)

lemma hook_read_two:
  assumes nd: "\<forall>j. \<not> is_done j" and inv: "hk_stopped h = fs_returned (hk_frames h)"
  shows "fs_calls (hk_frames (hook_read dec parse is_done (False, b)
                               (hook_read dec parse is_done (False, a) h)))
           = fs_calls (hk_frames (hook_read dec parse is_done (False, a @ b) h))
       \<and> hk_stopped (hook_read dec parse is_done (False, b)
                               (hook_read dec parse is_done (False, a) h))
           = hk_stopped (hook_read dec parse is_done (False, a @ b) h)
       \<and> (\<not> hk_stopped (hook_read dec parse is_done (False, a @ b) h) \<longrightarrow>
            hook_read dec parse is_done (False, b) (hook_read dec parse is_done (False, a) h)
              = hook_read dec parse is_done (False, a @ b) h)"
proof -
  define G where "G = (\<lambda>h bs. hook_read dec parse is_done (False, bs) h)"
  have all: "fs_calls (hk_frames (G (G h a) b)) = fs_calls (hk_frames (G h (a @ b)))
      \<and> hk_stopped (G (G h a) b) = hk_stopped (G h (a @ b))
      \<and> (\<not> hk_stopped (G h (a @ b)) \<longrightarrow> G (G h a) b = G h (a @ b))"
  proof (cases "hk_stopped h")
    case True
    then show ?thesis by (simp add: G_def hook_read_stopped)
  next
    case False
    with inv have nr: "\<not> fs_returned (hk_frames h)" by simp
    obtain d1 s1 where a: "decode dec (hk_decoder h) a = (d1, s1)" by force
    obtain d2 s2 where b: "decode dec d1 b = (d2, s2)" by force
    have ab: "decode dec (hk_decoder h) (a @ b) = (d2, s1 @ s2)"
      by (simp add: decode_append a b)
    let ?fr = "hk_frames h"
    let ?st = "?fr\<lparr>fs_buf := fs_buf ?fr @ s1\<rparr>"
    let ?f1 = "frames_loop parse is_done ?st"
    have g1: "G h a = \<lparr>hk_decoder = d1, hk_frames = ?f1, hk_stopped = fs_returned ?f1\<rparr>"
      using False by (simp add: G_def hook_read_def a Let_def del: frames_loop.simps)
    have g3: "G h (a @ b) = \<lparr>hk_decoder = d2,
        hk_frames = frames_loop parse is_done (?fr\<lparr>fs_buf := fs_buf ?fr @ s1 @ s2\<rparr>),
        hk_stopped = fs_returned (frames_loop parse is_done (?fr\<lparr>fs_buf := fs_buf ?fr @ s1 @ s2\<rparr>))\<rparr>"
      using False by (simp add: G_def hook_read_def ab Let_def del: frames_loop.simps)
    have nrs: "\<not> fs_returned ?st" using nr by simp
    have ap: "frames_loop parse is_done (?fr\<lparr>fs_buf := fs_buf ?fr @ s1 @ s2\<rparr>) =
       (if fs_returned ?f1 then ?f1\<lparr>fs_buf := fs_buf ?f1 @ s2\<rparr>
        else frames_loop parse is_done (?f1\<lparr>fs_buf := fs_buf ?f1 @ s2\<rparr>))"
      using frames_loop_append[OF nd nrs, of parse s2] by (simp add: Let_def del: frames_loop.simps)
    show ?thesis
    proof (cases "fs_returned ?f1")
      case True
      then have "hk_stopped (G h a)" by (simp add: g1 del: frames_loop.simps)
      then have "G (G h a) b = G h a" unfolding G_def by (rule hook_read_stopped)
      with True show ?thesis by (simp add: g1 g3 ap del: frames_loop.simps)
    next
      case F: False
      have "G (G h a) b = G \<lparr>hk_decoder = d1, hk_frames = ?f1, hk_stopped = fs_returned ?f1\<rparr> b"
        by (simp only: g1)
      also have "\<dots> = \<lparr>hk_decoder = d2,
          hk_frames = frames_loop parse is_done (?f1\<lparr>fs_buf := fs_buf ?f1 @ s2\<rparr>),
          hk_stopped = fs_returned (frames_loop parse is_done (?f1\<lparr>fs_buf := fs_buf ?f1 @ s2\<rparr>))\<rparr>"
        using F by (simp add: G_def hook_read_def b Let_def del: frames_loop.simps)
      finally have "G (G h a) b = \<lparr>hk_decoder = d2,
          hk_frames = frames_loop parse is_done (?f1\<lparr>fs_buf := fs_buf ?f1 @ s2\<rparr>),
          hk_stopped = fs_returned (frames_loop parse is_done (?f1\<lparr>fs_buf := fs_buf ?f1 @ s2\<rparr>))\<rparr>" .
      with F show ?thesis by (simp add: g3 ap del: frames_loop.simps)
    qed
  qed
  then show ?thesis by (simp add: G_def del: frames_loop.simps)
qed

lemma hook_loop_chunk_invariant:
  fixes dec :: "'d decoder" and parse :: "jsstring \<Rightarrow> 'j option"
  assumes nd: "\<forall>j. \<not> is_done j"
  shows "hk_stopped (foldl (\<lambda>h rd. hook_read dec parse is_done rd h) (hook_init d0)
                      (map (Pair False) chunks))
         = fs_returned (hk_frames (foldl (\<lambda>h rd. hook_read dec parse is_done rd h) (hook_init d0)
                      (map (Pair False) chunks)))
       \<and> fs_calls (hk_frames (foldl (\<lambda>h rd. hook_read dec parse is_done rd h) (hook_init d0)
                      (map (Pair False) chunks)))
         = fs_calls (hk_frames (hook_read dec parse is_done (False, concat chunks) (hook_init d0)))
       \<and> hk_stopped (foldl (\<lambda>h rd. hook_read dec parse is_done rd h) (hook_init d0)
                      (map (Pair False) chunks))
         = hk_stopped (hook_read dec parse is_done (False, concat chunks) (hook_init d0))
       \<and> (\<not> hk_stopped (foldl (\<lambda>h rd. hook_read dec parse is_done rd h) (hook_init d0)
                      (map (Pair False) chunks)) \<longrightarrow>
            foldl (\<lambda>h rd. hook_read dec parse is_done rd h) (hook_init d0)
                      (map (Pair False) chunks)
              = hook_read dec parse is_done (False, concat chunks) (hook_init d0))"
proof -
  define G where "G = (\<lambda>h bs. hook_read dec parse is_done (False, bs) h)"
  define S where "S = (\<lambda>chunks. foldl (\<lambda>h rd. hook_read dec parse is_done rd h)
                  (hook_init d0 :: ('d, 'j) hook_state) (map (Pair False) chunks))"
  let ?i = "hook_init d0 :: ('d, 'j) hook_state"
  have "hk_stopped (S chunks) = fs_returned (hk_frames (S chunks))
       \<and> fs_calls (hk_frames (S chunks)) = fs_calls (hk_frames (G ?i (concat chunks)))
       \<and> hk_stopped (S chunks) = hk_stopped (G ?i (concat chunks))
       \<and> (\<not> hk_stopped (S chunks) \<longrightarrow> S chunks = G ?i (concat chunks))"
  proof (induction chunks rule: rev_induct)
    case Nil
    have e: "indexOf_lflf [] = None" by simp
    have "frames_loop parse is_done \<lparr>fs_buf = [], fs_calls = [], fs_returned = False\<rparr>
        = \<lparr>fs_buf = [], fs_calls = [], fs_returned = False\<rparr>"
      by (subst frames_loop.simps) (simp add: e del: frames_loop.simps)
    then show ?case
      by (simp add: S_def G_def hook_init_def hook_read_def del: frames_loop.simps)
  next
    case (snoc x xs)
    let ?A = "concat xs"
    have step: "S (xs @ [x]) = G (S xs) x" by (simp add: S_def G_def)
    have inv0: "hk_stopped ?i = fs_returned (hk_frames ?i)" by (simp add: hook_init_def)
    have two: "fs_calls (hk_frames (G (G ?i ?A) x)) = fs_calls (hk_frames (G ?i (?A @ x)))"
      "hk_stopped (G (G ?i ?A) x) = hk_stopped (G ?i (?A @ x))"
      "\<not> hk_stopped (G ?i (?A @ x)) \<Longrightarrow> G (G ?i ?A) x = G ?i (?A @ x)"
      using hook_read_two[OF nd inv0, of dec parse x ?A] by (simp_all add: G_def)
    from snoc have inv: "hk_stopped (S xs) = fs_returned (hk_frames (S xs))" by simp
    have inv': "hk_stopped (G (S xs) x) = fs_returned (hk_frames (G (S xs) x))"
      unfolding G_def by (rule hook_read_inv[OF inv])
    show ?case
    proof (cases "hk_stopped (S xs)")
      case True
      then have s: "G (S xs) x = S xs" by (simp add: G_def hook_read_stopped)
      from True snoc have st: "hk_stopped (G ?i ?A)" by blast
      then have g: "G (G ?i ?A) x = G ?i ?A" unfolding G_def by (rule hook_read_stopped)
      from snoc have c: "fs_calls (hk_frames (S xs)) = fs_calls (hk_frames (G ?i ?A))" by blast
      from two(1,2) g c st True inv show ?thesis
        by (simp add: step s del: frames_loop.simps)
    next
      case False
      with snoc have e: "S xs = G ?i ?A" by blast
      from two inv' show ?thesis
        by (simp add: step e del: frames_loop.simps)
    qed
  qed
  then show ?thesis unfolding S_def G_def .
qed

lemma hook_chunk_invariant_without_done:
  assumes "\<forall>j. \<not> is_done j"
  shows "processSSEStream dec d0 parse is_done (map (Pair False) chunks)
       = processSSEStream dec d0 parse is_done [(False, concat chunks)]"
  using hook_loop_chunk_invariant[OF assms, of dec parse d0 chunks]
  by (simp add: processSSEStream_def del: frames_loop.simps)

section \<open>The claims\<close>


text \<open>
  C2 (multi-line data). The stream processor of the chat hook appends the values of
  the data lines with nothing between them: the frame \<open>"data: hel\ndata: lo"\<close> gives the
  data \<open>"hello"\<close>, not \<open>"hel\nlo"\<close>, which is then handed to \<open>JSON.parse\<close>, rejected, and
  no chunk is dispatched.
\<close>

theorem hook_data_lines_not_joined:
  "parse_frame (js ''data: hel\<newline>data: lo'') = (js ''message'', js ''hello'')
   \<and> parse_flat_object (js ''hello'') = None
   \<and> processSSEStream utf8_decoder utf8_init parse_flat_object chunk_type_is_done
         [(False, bytes ''data: hel\<newline>data: lo\<newline>\<newline>'')] = []"
  by code_simp

text \<open>
  C3 (default event type). The chunks \<open>"data: hel"\<close>, \<open>"lo\n\n"\<close> make \<open>FetchSSEClient\<close>
  dispatch one message with data \<open>"hello"\<close>, but its event type is \<open>undefined\<close>
  (\<open>None\<close>), not \<open>"message"\<close>: \<open>dispatchEvent\<close> copies \<open>currentEvent.event\<close> as it is.
\<close>

theorem fetch_event_type_not_defaulted:
  "messages (calls (processStream utf8_decoder utf8_init
       [(1, bytes ''data: hel''), (2, bytes ''lo\<newline>\<newline>'')]
       (new_FetchSSEClient default_options)))
     = [\<lparr>msg_data = js ''hello'', msg_event = None, msg_id = None, msg_retry = None\<rparr>]"
  by code_simp

text \<open>
  C4 (retry exhaustion). \<open>FetchSSEClient\<close> with \<open>maxReconnectAttempts = 5\<close>, every request
  answered with status 503: after the sixth failure the client reports
  \<open>disconnected\<close> and schedules nothing, but each call of \<open>onError\<close>, the last one too,
  carries the error of the request. No error "max attempts reached" is ever reported.
\<close>

theorem fetch_exhaustion_reports_triggering_error:
  "map_option (\<lambda>w. (calls (client w), timeouts w, reconnectAttempts (client w)))
     (run utf8_decoder utf8_init
       [(\<lparr>date_now = 0, math_random = 0\<rparr>, CallConnect),
        (\<lparr>date_now = 10, math_random = 0\<rparr>, FetchResponse 1 False 503 ''Service Unavailable'' False),
        (\<lparr>date_now = 1010, math_random = 0\<rparr>, TimeoutFired 2),
        (\<lparr>date_now = 1020, math_random = 0\<rparr>, FetchResponse 3 False 503 ''Service Unavailable'' False),
        (\<lparr>date_now = 3020, math_random = 0\<rparr>, TimeoutFired 4),
        (\<lparr>date_now = 3030, math_random = 0\<rparr>, FetchResponse 5 False 503 ''Service Unavailable'' False),
        (\<lparr>date_now = 7030, math_random = 0\<rparr>, TimeoutFired 6),
        (\<lparr>date_now = 7040, math_random = 0\<rparr>, FetchResponse 7 False 503 ''Service Unavailable'' False),
        (\<lparr>date_now = 15040, math_random = 0\<rparr>, TimeoutFired 8),
        (\<lparr>date_now = 15050, math_random = 0\<rparr>, FetchResponse 9 False 503 ''Service Unavailable'' False),
        (\<lparr>date_now = 31050, math_random = 0\<rparr>, TimeoutFired 10),
        (\<lparr>date_now = 31060, math_random = 0\<rparr>, FetchResponse 11 False 503 ''Service Unavailable'' False)]
       (new_world default_options))
   = Some ([OnConnectionStatus Connecting, OnError (JSError ''Error'' ''HTTP 503: Service Unavailable''),
            OnConnectionStatus Reconnecting,
            OnConnectionStatus Connecting, OnError (JSError ''Error'' ''HTTP 503: Service Unavailable''),
            OnConnectionStatus Reconnecting,
            OnConnectionStatus Connecting, OnError (JSError ''Error'' ''HTTP 503: Service Unavailable''),
            OnConnectionStatus Reconnecting,
            OnConnectionStatus Connecting, OnError (JSError ''Error'' ''HTTP 503: Service Unavailable''),
            OnConnectionStatus Reconnecting,
            OnConnectionStatus Connecting, OnError (JSError ''Error'' ''HTTP 503: Service Unavailable''),
            OnConnectionStatus Reconnecting,
            OnConnectionStatus Connecting, OnError (JSError ''Error'' ''HTTP 503: Service Unavailable''),
            OnConnectionStatus Disconnected], [], 5)"
  by code_simp



text \<open>
  C6 (close is terminal). \<open>FetchSSEClient\<close>: the heartbeat monitor times out while the
  stream is still open and schedules a reconnection (timer 3); then the read fails
  and \<open>scheduleReconnect\<close> runs again, overwriting \<open>reconnectTimer\<close> with timer 4. \<open>close()\<close>
  clears timer 4 only. Timer 3 fires after the close and calls \<open>connect()\<close>: the client
  reports \<open>connecting\<close> and a new request is in flight.
\<close>

theorem fetch_reconnects_after_close:
  "map_option (\<lambda>w. (calls (client w), activations w))
     (run utf8_decoder utf8_init
       [(\<lparr>date_now = 0, math_random = 0.5\<rparr>, CallConnect),
        (\<lparr>date_now = 10, math_random = 0.5\<rparr>, FetchResponse 1 True 200 ''OK'' True),
        (\<lparr>date_now = 20000, math_random = 0.5\<rparr>, IntervalFired 2),
        (\<lparr>date_now = 20100, math_random = 0.5\<rparr>, ReadError 1 (JSError ''TypeError'' ''network error'')),
        (\<lparr>date_now = 20200, math_random = 0.5\<rparr>, CallClose),
        (\<lparr>date_now = 21300, math_random = 0.5\<rparr>, TimeoutFired 3)]
       (new_world default_options))
   = Some ([OnConnectionStatus Connecting, OnConnectionStatus Connected,
            OnError (JSError ''Error'' ''Heartbeat timeout''), OnConnectionStatus Reconnecting,
            OnError (JSError ''TypeError'' ''network error''), OnConnectionStatus Reconnecting,
            OnConnectionStatus Disconnected,
            OnConnectionStatus Connecting], [(5, AwaitingFetch)])"
  by code_simp

text \<open>
  C7 (white space of a field value), as stated: exactly one leading space is removed
  and nothing else, so \<open>"data:  x "\<close> would give the value \<open>" x "\<close>. Both parsers give
  \<open>"x"\<close>.
\<close>

theorem field_value_whitespace_counterexample:
  "messages (calls (processText [(0, js ''data:  x \<newline>\<newline>'')] (new_FetchSSEClient default_options)))
     = [\<lparr>msg_data = js ''x'', msg_event = None, msg_id = None, msg_retry = None\<rparr>]
   \<and> parse_frame (js ''data:  x '') = (js ''message'', js ''x'')
   \<and> js ''x'' \<noteq> js '' x ''"
  by code_simp

text \<open>
  C7, amended: the text after the first colon is passed through
  \<open>String.prototype.trim\<close>, in the client for each of the four fields and in the stream
  processor of the chat hook for \<open>data\<close>. The value is what is left of the text when the
  white space at both ends is taken away: it neither starts nor ends with white space.
\<close>

theorem field_value_is_trimmed:
  "pe_data (currentEvent (processSSELine now (js ''data:'' @ v) c))
       = Some (or_empty (pe_data (currentEvent c)) @ trim v @ [LF])
   \<and> pe_event (currentEvent (processSSELine now (js ''event:'' @ v) c)) = Some (trim v)
   \<and> pe_id (currentEvent (processSSELine now (js ''id:'' @ v) c)) = Some (trim v)
   \<and> pe_retry (currentEvent (processSSELine now (js ''retry:'' @ v) c)) = Some (parseInt10 (trim v))
   \<and> (LF \<notin> set v \<longrightarrow> parse_frame (js ''data:'' @ v) = (js ''message'', trim v))
   \<and> (\<exists>l r. v = l @ trim v @ r \<and> list_all isWhiteSpace l \<and> list_all isWhiteSpace r)
   \<and> (trim v \<noteq> [] \<longrightarrow> \<not> isWhiteSpace (hd (trim v)) \<and> \<not> isWhiteSpace (last (trim v)))"
  using trim_decompose[of v] trim_hd[of v] trim_last[of v] hook_single_data_line[of v]
  by (simp add: data_line event_line id_line retry_line)

theorem field_value_is_trimmed_witness:
  "LF \<notin> set (js ''  x '') \<and> trim (js ''  x '') = js ''x'' \<and> js ''x'' \<noteq> []
   \<and> pe_data (currentEvent (processSSELine 0 (js ''data:'' @ js ''  x '') (new_FetchSSEClient default_options)))
       = Some (js ''x\<newline>'')
   \<and> parse_frame (js ''data:'' @ js ''  x '') = (js ''message'', js ''x'')
   \<and> \<not> isWhiteSpace (hd (js ''x''))"
proof -
  have a: "LF \<notin> set (js ''  x '')" by code_simp
  have b: "trim (js ''  x '') = js ''x''" by code_simp
  have c: "js ''x'' \<noteq> []" by code_simp
  have d: "or_empty (pe_data (currentEvent (new_FetchSSEClient default_options))) = []"
    by (simp add: new_FetchSSEClient_def empty_event_def or_empty_def)
  have e: "js ''x'' @ [LF] = js ''x\<newline>''" by code_simp
  show ?thesis
    using field_value_is_trimmed[of 0 "js ''  x ''" "new_FetchSSEClient default_options"] a b c d e
    by simp
qed

text \<open>
  C8 (lines without a colon), as stated: a line such as \<open>data\<close> would count as a data
  field with an empty value. The client does not do that: after the line \<open>data\<close> no
  data is pending and the frame \<open>"data\n\n"\<close> dispatches nothing, whereas \<open>data:\<close> adds an
  empty data line and \<open>"data:\n\n"\<close> dispatches a message with empty data.
\<close>

theorem no_colon_line_counterexample:
  "pe_data (currentEvent (processSSELine 0 (js ''data'') (new_FetchSSEClient default_options))) = None
   \<and> pe_data (currentEvent (processSSELine 0 (js ''data:'') (new_FetchSSEClient default_options))) = Some [LF]
   \<and> messages (calls (processText [(0, js ''data\<newline>\<newline>'')] (new_FetchSSEClient default_options))) = []
   \<and> messages (calls (processText [(0, js ''data:\<newline>\<newline>'')] (new_FetchSSEClient default_options)))
       = [\<lparr>msg_data = [], msg_event = None, msg_id = None, msg_retry = None\<rparr>]"
  by code_simp

text \<open>
  C8, amended: a line that has no colon and is not blank is ignored. It only refreshes
  \<open>lastHeartbeat\<close>; the pending event and the callbacks are unchanged.
\<close>

theorem no_colon_line_ignored:
  "indexOf line COLON = None \<and> \<not> list_all isWhiteSpace line \<longrightarrow>
     processSSELine now line c = c\<lparr>lastHeartbeat := now\<rparr>"
  using no_colon_line[of line now c] by (simp add: trim_empty_iff)

theorem no_colon_line_ignored_witness:
  "indexOf (js ''data'') COLON = None \<and> \<not> list_all isWhiteSpace (js ''data'')
   \<and> processSSELine 5 (js ''data'') (new_FetchSSEClient default_options)
       = (new_FetchSSEClient default_options)\<lparr>lastHeartbeat := 5\<rparr>"
proof -
  have a: "indexOf (js ''data'') COLON = None" by code_simp
  have b: "\<not> list_all isWhiteSpace (js ''data'')" by code_simp
  show ?thesis
    using no_colon_line_ignored[of "js ''data''" 5 "new_FetchSSEClient default_options"] a b
    by simp
qed

text \<open>
  C9 (comment transparency). A line that begins with \<open>:\<close> produces no message: the only
  callback it causes is \<open>onHeartbeat\<close>, the pending event is left as it was and
  \<open>lastHeartbeat\<close> becomes the current time. In particular the frame \<open>": ping\n\n"\<close>,
  read while no event is pending, dispatches no message and refreshes the time stamp.
\<close>

theorem comment_transparency:
  "(startsWith line (js '':'') \<longrightarrow>
      calls (processSSELine now line c) = calls c @ [OnHeartbeat]
      \<and> messages (calls (processSSELine now line c)) = messages (calls c)
      \<and> lastHeartbeat (processSSELine now line c) = now
      \<and> currentEvent (processSSELine now line c) = currentEvent c)
   \<and> (currentEvent c = empty_event \<longrightarrow>
      calls (processText [(now, js '': ping\<newline>\<newline>'')] c) = calls c @ [OnHeartbeat]
      \<and> messages (calls (processText [(now, js '': ping\<newline>\<newline>'')] c)) = messages (calls c)
      \<and> lastHeartbeat (processText [(now, js '': ping\<newline>\<newline>'')] c) = now)"
proof (intro conjI impI)
  assume a: "startsWith line (js '':'')"
  show "calls (processSSELine now line c) = calls c @ [OnHeartbeat]"
    by (simp add: comment_line[OF a])
  show "messages (calls (processSSELine now line c)) = messages (calls c)"
    by (simp add: comment_line[OF a] messages_append)
  show "lastHeartbeat (processSSELine now line c) = now"
    by (simp add: comment_line[OF a])
  show "currentEvent (processSSELine now line c) = currentEvent c"
    by (simp add: comment_line[OF a])
next
  assume e: "currentEvent c = empty_event"
  have sp: "split_lf (js '': ping\<newline>\<newline>'') = [js '': ping'', [], []]"
    by code_simp
  have sw: "startsWith (js '': ping'') (js '':'')" by code_simp
  have t: "trim [] = []" by (simp add: trim_def)
  have r: "processText [(now, js '': ping\<newline>\<newline>'')] c
       = dispatchEvent ((processSSELine now (js '': ping'') c)\<lparr>lastHeartbeat := now\<rparr>)"
    by (simp add: processText_def feed_text_def sp blank_line[OF t])
  show "calls (processText [(now, js '': ping\<newline>\<newline>'')] c) = calls c @ [OnHeartbeat]"
    using e by (simp add: r comment_line[OF sw] dispatchEvent_def empty_event_def)
  then show "messages (calls (processText [(now, js '': ping\<newline>\<newline>'')] c)) = messages (calls c)"
    by (simp add: messages_append)
  show "lastHeartbeat (processText [(now, js '': ping\<newline>\<newline>'')] c) = now"
    using e by (simp add: r comment_line[OF sw] dispatchEvent_def empty_event_def)
qed

theorem comment_transparency_witness:
  "startsWith (js '': ping'') (js '':'')
   \<and> currentEvent (new_FetchSSEClient default_options) = empty_event
   \<and> calls (processSSELine 7 (js '': ping'') (new_FetchSSEClient default_options)) = [OnHeartbeat]
   \<and> messages (calls (processText [(7, js '': ping\<newline>\<newline>'')] (new_FetchSSEClient default_options))) = []
   \<and> lastHeartbeat (processText [(7, js '': ping\<newline>\<newline>'')] (new_FetchSSEClient default_options)) = 7"
proof -
  have a: "startsWith (js '': ping'') (js '':'')" by code_simp
  have b: "currentEvent (new_FetchSSEClient default_options) = empty_event"
    by (simp add: new_FetchSSEClient_def)
  have c: "calls (new_FetchSSEClient default_options) = []"
    by (simp add: new_FetchSSEClient_def)
  show ?thesis
    using comment_transparency[of "js '': ping''" 7 "new_FetchSSEClient default_options"] a b c
    by simp
qed

text \<open>
  C10 (white-space-only lines). A line made of white space only is handled exactly as
  the empty line: \<open>processSSELine\<close> calls \<open>dispatchEvent\<close>, which emits the pending message
  when a data field was seen and resets the accumulator; the line is never parsed as a
  field.
\<close>

theorem whitespace_only_line_dispatches:
  "list_all isWhiteSpace line \<longrightarrow>
     processSSELine now line c = processSSELine now [] c
     \<and> processSSELine now line c = dispatchEvent (c\<lparr>lastHeartbeat := now\<rparr>)
     \<and> currentEvent (processSSELine now line c) = empty_event
     \<and> messages (calls (processSSELine now line c)) =
         messages (calls c) @
           (case pe_data (currentEvent c) of
              None \<Rightarrow> []
            | Some d \<Rightarrow> [\<lparr>msg_data = strip_trailing_lf d, msg_event = pe_event (currentEvent c),
                           msg_id = pe_id (currentEvent c), msg_retry = pe_retry (currentEvent c)\<rparr>])"
proof
  assume "list_all isWhiteSpace line"
  then have t: "trim line = []" by (simp add: trim_empty_iff)
  have t0: "trim [] = []" by (simp add: trim_def)
  show "processSSELine now line c = processSSELine now [] c
     \<and> processSSELine now line c = dispatchEvent (c\<lparr>lastHeartbeat := now\<rparr>)
     \<and> currentEvent (processSSELine now line c) = empty_event
     \<and> messages (calls (processSSELine now line c)) =
         messages (calls c) @
           (case pe_data (currentEvent c) of
              None \<Rightarrow> []
            | Some d \<Rightarrow> [\<lparr>msg_data = strip_trailing_lf d, msg_event = pe_event (currentEvent c),
                           msg_id = pe_id (currentEvent c), msg_retry = pe_retry (currentEvent c)\<rparr>])"
    by (simp add: blank_line[OF t] blank_line[OF t0] dispatchEvent_def call_def messages_append
             Let_def split: option.split)
qed

theorem whitespace_only_line_dispatches_witness:
  "list_all isWhiteSpace [0x20, 0x09]
   \<and> messages (calls (processSSELine 3 [0x20, 0x09]
        ((new_FetchSSEClient default_options)\<lparr>currentEvent := empty_event\<lparr>pe_data := Some (js ''x\<newline>'')\<rparr>\<rparr>)))
      = [\<lparr>msg_data = js ''x'', msg_event = None, msg_id = None, msg_retry = None\<rparr>]"
proof -
  have a: "list_all isWhiteSpace [0x20, 0x09]" by (simp add: isWhiteSpace_def)
  have s: "strip_trailing_lf (js ''x\<newline>'') = js ''x''" by code_simp
  let ?c = "(new_FetchSSEClient default_options)\<lparr>currentEvent := empty_event\<lparr>pe_data := Some (js ''x\<newline>'')\<rparr>\<rparr>"
  have p: "pe_data (currentEvent ?c) = Some (js ''x\<newline>'')" "pe_event (currentEvent ?c) = None"
    "pe_id (currentEvent ?c) = None" "pe_retry (currentEvent ?c) = None" "calls ?c = []"
    by (simp_all add: new_FetchSSEClient_def empty_event_def)
  from whitespace_only_line_dispatches[of "[0x20, 0x09]" 3 ?c] a
  have "messages (calls (processSSELine 3 [0x20, 0x09] ?c)) =
         messages (calls ?c) @
           (case pe_data (currentEvent ?c) of
              None \<Rightarrow> []
            | Some d \<Rightarrow> [\<lparr>msg_data = strip_trailing_lf d, msg_event = pe_event (currentEvent ?c),
                           msg_id = pe_id (currentEvent ?c), msg_retry = pe_retry (currentEvent ?c)\<rparr>])"
    by blast
  then have "messages (calls (processSSELine 3 [0x20, 0x09] ?c))
      = [\<lparr>msg_data = js ''x'', msg_event = None, msg_id = None, msg_retry = None\<rparr>]"
    by (simp only: p s option.case messages.simps append_Nil)
  with a show ?thesis by blast
qed

end
